theory Spec2Isabelle
  imports Main "HOL-Library.Monad_Syntax" "HOL-Library.AList"
begin

section \<open>JavaScript strings\<close>

text \<open>
  A JavaScript string is modelled as a HOL \<open>string\<close>: a list of characters with codes
  0 to 255 (the Latin-1 range of UTF-16 code units). Every pattern of the program is
  ASCII, so case-insensitive matching (flag \<open>i\<close>) folds the ASCII letters only:
  the regular-expression canonicalisation never maps a non-ASCII character onto an ASCII
  one.
\<close>

definition isWhiteSpace :: "char \<Rightarrow> bool" where
  \<comment> \<open>the class \<open>\s\<close>, and what \<open>trim()\<close> strips\<close>
  "isWhiteSpace c =
     (c \<in> set [CHR 0x09, CHR 0x0A, CHR 0x0B, CHR 0x0C, CHR 0x0D, CHR 0x20, CHR 0xA0])"

definition isWordChar :: "char \<Rightarrow> bool" where
  \<comment> \<open>the class \<open>\w\<close>\<close>
  "isWordChar c =
     (c \<in> set ''ABCDEFGHIJKLMNOPQRSTUVWXYZabcdefghijklmnopqrstuvwxyz0123456789_'')"

definition isQuote :: "char \<Rightarrow> bool" where
  \<comment> \<open>the class \<open>["']\<close>\<close>
  "isQuote c = (c = CHR 0x22 \<or> c = CHR 0x27)"

fun asciiLower :: "char \<Rightarrow> char" where
  \<comment> \<open>the letters \<open>A\<close> to \<open>Z\<close> are the codes \<open>0x41\<close> to \<open>0x5A\<close>; bit 5 makes them lower case\<close>
  "asciiLower (Char b0 b1 b2 b3 b4 b5 b6 b7) =
     (if \<not> b7 \<and> b6 \<and> \<not> b5 \<and> (b0 \<or> b1 \<or> b2 \<or> b3 \<or> b4)
         \<and> \<not> (b3 \<and> b4 \<and> (b2 \<or> (b0 \<and> b1)))
      then Char b0 b1 b2 b3 b4 True b6 b7
      else Char b0 b1 b2 b3 b4 b5 b6 b7)"

definition trim :: "string \<Rightarrow> string" where
  "trim s = rev (dropWhile isWhiteSpace (rev (dropWhile isWhiteSpace s)))"

fun startsWith :: "string \<Rightarrow> string \<Rightarrow> bool" where
  "startsWith s [] = True"
| "startsWith [] (p # ps) = False"
| "startsWith (c # cs) (p # ps) = (if c = p then startsWith cs ps else False)"

fun startsWith_ci :: "string \<Rightarrow> string \<Rightarrow> bool" where
  "startsWith_ci s [] = True"
| "startsWith_ci [] (p # ps) = False"
| "startsWith_ci (c # cs) (p # ps) =
     (if asciiLower c = asciiLower p then startsWith_ci cs ps else False)"

fun indexOf :: "string \<Rightarrow> string \<Rightarrow> nat option" where
  "indexOf [] p = (if p = [] then Some 0 else None)"
| "indexOf (c # cs) p =
     (if startsWith (c # cs) p then Some 0 else map_option Suc (indexOf cs p))"

fun indexOf_ci :: "string \<Rightarrow> string \<Rightarrow> nat option" where
  "indexOf_ci [] p = (if p = [] then Some 0 else None)"
| "indexOf_ci (c # cs) p =
     (if startsWith_ci (c # cs) p then Some 0 else map_option Suc (indexOf_ci cs p))"

definition includes_str :: "string \<Rightarrow> string \<Rightarrow> bool" where
  "includes_str s p = (indexOf s p \<noteq> None)"

definition digitChar :: "int \<Rightarrow> char" where
  "digitChar i = ''0123456789'' ! nat (i mod 10)"

function decimal :: "int \<Rightarrow> string" where
  \<comment> \<open>the decimal digits of a number that is not negative\<close>
  "decimal i = (if i < 10 then [digitChar i] else decimal (i div 10) @ [digitChar i])"
  by pat_completeness auto
termination
  by (relation "measure nat") auto

declare decimal.simps [simp del]

definition string_of_int :: "int \<Rightarrow> string" where
  \<comment> \<open>\<open>String(n)\<close> of an integral number\<close>
  "string_of_int i = (if i < 0 then CHR ''-'' # decimal (- i) else decimal i)"

definition string_of_nat :: "nat \<Rightarrow> string" where
  "string_of_nat n = decimal (int n)"

definition padStart :: "nat \<Rightarrow> char \<Rightarrow> string \<Rightarrow> string" where
  "padStart n c s = replicate (n - length s) c @ s"

definition splitFirst :: "char \<Rightarrow> string \<Rightarrow> string" where
  \<comment> \<open>\<open>const [x] = s.split(sep)\<close>: the part of \<open>s\<close> before the first separator\<close>
  "splitFirst sep s = takeWhile (\<lambda>c. c \<noteq> sep) s"

subsection \<open>Regular expressions\<close>

text \<open>
  A regular expression of the program is embedded as its anchored matcher: given the rest
  of the input at a position it returns the length of the match there and the text of the
  capture groups, or \<open>None\<close>. No pattern of the program has an assertion
  (\<open>^\<close>, \<open>\b\<close>, lookaround) other than one trailing \<open>$\<close>, so the text before the position is
  not needed. \<open>regex_search\<close> is the engine's scan for the leftmost match.
\<close>

type_synonym matcher = "string \<Rightarrow> (nat \<times> string list) option"

fun regex_search :: "matcher \<Rightarrow> string \<Rightarrow> (nat \<times> nat \<times> string list) option" where
  "regex_search m [] =
     (case m [] of None \<Rightarrow> None | Some (n, caps) \<Rightarrow> Some (0, n, caps))"
| "regex_search m (c # cs) =
     (case m (c # cs) of
        Some (n, caps) \<Rightarrow> Some (0, n, caps)
      | None \<Rightarrow>
          (case regex_search m cs of
             None \<Rightarrow> None
           | Some (i, n, caps) \<Rightarrow> Some (Suc i, n, caps)))"

definition regex_test :: "matcher \<Rightarrow> string \<Rightarrow> bool" where
  "regex_test m s = (regex_search m s \<noteq> None)"

definition regex_match :: "matcher \<Rightarrow> string \<Rightarrow> (string \<times> string list) option" where
  \<comment> \<open>\<open>s.match(re)\<close> of a regular expression without flag \<open>g\<close>: the match and its groups\<close>
  "regex_match m s =
     (case regex_search m s of
        None \<Rightarrow> None
      | Some (i, n, caps) \<Rightarrow> Some (take n (drop i s), caps))"

definition isDigit :: "char \<Rightarrow> bool" where
  "isDigit c = (c \<in> set ''0123456789'')"

definition digitVal :: "char \<Rightarrow> nat" where
  "digitVal c = (case map_of (zip ''0123456789'' [0 ..< 10]) c of Some n \<Rightarrow> n | None \<Rightarrow> 0)"

definition capture :: "string list \<Rightarrow> nat \<Rightarrow> string" where
  "capture caps k = (if 1 \<le> k \<and> k \<le> length caps then caps ! (k - 1) else [])"

text \<open>
  The replacement text of \<open>String.prototype.replace\<close> is a template (ECMAScript
  GetSubstitution): \<open>$$\<close> is a dollar sign, \<open>$&\<close> the match, \<open>$`\<close> and \<open>$'\<close> the text
  before and after it, \<open>$n\<close> and \<open>$nn\<close> a capture group when the pattern has that
  many groups; a two-digit reference beyond the number of groups is read as a one-digit
  reference and a digit. No pattern of the program has named groups, so \<open>$<\<close> stays.
\<close>

fun GetSubstitution ::
  "string \<Rightarrow> string \<Rightarrow> string \<Rightarrow> string list \<Rightarrow> string \<Rightarrow> string" where
  "GetSubstitution matched pre_text after caps [] = []"
| "GetSubstitution matched pre_text after caps [c] = [c]"
| "GetSubstitution matched pre_text after caps (c # d # rest) =
     (if c \<noteq> CHR ''$'' then c # GetSubstitution matched pre_text after caps (d # rest)
      else if d = CHR ''$'' then CHR ''$'' # GetSubstitution matched pre_text after caps rest
      else if d = CHR ''&'' then matched @ GetSubstitution matched pre_text after caps rest
      else if d = CHR 0x60 then pre_text @ GetSubstitution matched pre_text after caps rest
      else if d = CHR 0x27 then after @ GetSubstitution matched pre_text after caps rest
      else if isDigit d then
        (case rest of
           [] \<Rightarrow>
             (if 1 \<le> digitVal d \<and> digitVal d \<le> length caps then capture caps (digitVal d)
              else [c, d])
         | e # rest' \<Rightarrow>
             (if isDigit e \<and> 10 * digitVal d + digitVal e \<le> length caps then
                (if 1 \<le> 10 * digitVal d + digitVal e
                 then capture caps (10 * digitVal d + digitVal e)
                      @ GetSubstitution matched pre_text after caps rest'
                 else c # d # e # GetSubstitution matched pre_text after caps rest')
              else if 1 \<le> digitVal d \<and> digitVal d \<le> length caps
                then capture caps (digitVal d)
                     @ GetSubstitution matched pre_text after caps (e # rest')
              else c # d # GetSubstitution matched pre_text after caps (e # rest')))
      else c # GetSubstitution matched pre_text after caps (d # rest))"

definition js_replace :: "matcher \<Rightarrow> string \<Rightarrow> string \<Rightarrow> string" where
  \<comment> \<open>\<open>s.replace(re, rep)\<close>, \<open>re\<close> without flag \<open>g\<close>: the leftmost match only\<close>
  "js_replace m rep s =
     (case regex_search m s of
        None \<Rightarrow> s
      | Some (i, n, caps) \<Rightarrow>
          take i s
          @ GetSubstitution (take n (drop i s)) (take i s) (drop (i + n) s) caps rep
          @ drop (i + n) s)"

function replace_from :: "matcher \<Rightarrow> string \<Rightarrow> string \<Rightarrow> string \<Rightarrow> string" where
  "replace_from m rep pre s =
     (case regex_search m s of
        None \<Rightarrow> s
      | Some (i, n, caps) \<Rightarrow>
          (let pre_text = pre @ take i s;
               matched = take n (drop i s);
               after = drop (i + n) s;
               out = take i s @ GetSubstitution matched pre_text after caps rep
           in if matched = [] then
                (case after of
                   [] \<Rightarrow> out
                 | c # cs \<Rightarrow> out @ c # replace_from m rep (pre_text @ [c]) cs)
              else out @ replace_from m rep (pre_text @ matched) after))"
  by pat_completeness auto
termination
proof (relation "measure (\<lambda>(m, rep, pre, s). length s)", goal_cases)
  case 1
  show ?case by simp
next
  case (2 m rep pre s x2 i y n caps pre_text matched after out c cs)
  then have "length (drop (i + n) s) = Suc (length cs)"
    by (metis length_Cons)
  then show ?case by simp
next
  case (3 m rep pre s x2 i y n caps pre_text matched after out)
  then have "take n (drop i s) \<noteq> []" by simp
  then have "0 < n" and "s \<noteq> []" by auto
  then show ?case using 3 by simp
qed

declare replace_from.simps [simp del]

definition js_replace_all :: "matcher \<Rightarrow> string \<Rightarrow> string \<Rightarrow> string" where
  \<comment> \<open>\<open>s.replace(re, rep)\<close>, \<open>re\<close> with flag \<open>g\<close>: every match, left to right\<close>
  "js_replace_all m rep s = replace_from m rep [] s"

function matchAll :: "matcher \<Rightarrow> string \<Rightarrow> (string \<times> string list) list" where
  "matchAll m s =
     (case regex_search m s of
        None \<Rightarrow> []
      | Some (i, n, caps) \<Rightarrow>
          (take n (drop i s), caps)
          # (if length s < i + max n 1 then [] else matchAll m (drop (i + max n 1) s)))"
  by pat_completeness auto
termination
  by (relation "measure (\<lambda>(m, s). length s)") auto

declare matchAll.simps [simp del]

text \<open>The pieces the program's patterns are made of.\<close>

definition lit :: "string \<Rightarrow> string \<Rightarrow> string option" where
  \<comment> \<open>a literal; the result is the rest of the input\<close>
  "lit p s = (if startsWith s p then Some (drop (length p) s) else None)"

definition lit_ci :: "string \<Rightarrow> string \<Rightarrow> string option" where
  "lit_ci p s = (if startsWith_ci s p then Some (drop (length p) s) else None)"

definition many :: "(char \<Rightarrow> bool) \<Rightarrow> string \<Rightarrow> string option" where
  \<comment> \<open>a greedy \<open>[class]*\<close> before something the class excludes: the whole run\<close>
  "many P s = Some (dropWhile P s)"

definition many1 :: "(char \<Rightarrow> bool) \<Rightarrow> string \<Rightarrow> string option" where
  \<comment> \<open>a greedy \<open>[class]+\<close> before something the class excludes\<close>
  "many1 P s = (if takeWhile P s = [] then None else Some (dropWhile P s))"

definition quote :: "string \<Rightarrow> string option" where
  "quote s = (case s of [] \<Rightarrow> None | c # r \<Rightarrow> if isQuote c then Some r else None)"

definition lazyUntil :: "string \<Rightarrow> string \<Rightarrow> (string \<times> string) option" where
  \<comment> \<open>\<open>[\s\S]*?\<close> (or \<open>.*?\<close> with flag \<open>s\<close>) before a literal: up to its first occurrence;
      the result is the text skipped and the input from the literal on\<close>
  "lazyUntil p s = map_option (\<lambda>i. (take i s, drop i s)) (indexOf s p)"

definition lazyUntil_ci :: "string \<Rightarrow> string \<Rightarrow> (string \<times> string) option" where
  "lazyUntil_ci p s = map_option (\<lambda>i. (take i s, drop i s)) (indexOf_ci s p)"

definition litRegex :: "string \<Rightarrow> matcher" where
  \<comment> \<open>a pattern that is one escaped literal, as \<open>new RegExp(escapeRegExp(p))\<close>\<close>
  "litRegex p s = (if startsWith s p then Some (length p, []) else None)"


section \<open>Feed items and the host environment\<close>

text \<open>
  \<open>RSSItem\<close>. A \<open>Date\<close> is its time value, the milliseconds since the epoch; \<open>pubDate\<close> is
  \<open>None\<close> for \<open>null\<close> (the constructor stores \<open>itemData.pubDate || null\<close>).
\<close>

record rss_item =
  title :: string
  description :: string
  link :: string
  pubDate :: "int option"
  author :: string
  guid :: string
  categories :: "string list"

text \<open>
  What the program asks of the JavaScript host: the local calendar of a time value
  (\<open>getFullYear\<close>, \<open>getMonth\<close> counted from 0), its ISO rendering, the time value of
  \<open>new Date(text)\<close> (\<open>None\<close> when it is \<open>NaN\<close>), and the path functions \<open>resolve\<close> and
  \<open>dirname\<close> of \<open>node:path\<close>.
\<close>

record host =
  getFullYear :: "int \<Rightarrow> int"
  getMonth :: "int \<Rightarrow> nat"
  toISOString :: "int \<Rightarrow> string"
  dateParse :: "string \<Rightarrow> int option"
  resolve :: "string \<Rightarrow> string \<Rightarrow> string"
  dirname :: "string \<Rightarrow> string"

fun localeCompare :: "string \<Rightarrow> string \<Rightarrow> int" where
  \<comment> \<open>on year-month keys, made of digits and dashes, the collation of the locale is the
      order of the character codes\<close>
  "localeCompare [] [] = 0"
| "localeCompare [] (y # ys) = - 1"
| "localeCompare (x # xs) [] = 1"
| "localeCompare (x # xs) (y # ys) =
     (if x = y then localeCompare xs ys
      else if (of_char x :: int) < of_char y then - 1 else 1)"

fun insort_cmp :: "('a \<Rightarrow> 'a \<Rightarrow> int) \<Rightarrow> 'a \<Rightarrow> 'a list \<Rightarrow> 'a list" where
  "insort_cmp cmp x [] = [x]"
| "insort_cmp cmp x (y # ys) =
     (if cmp x y \<le> 0 then x # y # ys else y # insort_cmp cmp x ys)"

definition js_sort :: "('a \<Rightarrow> 'a \<Rightarrow> int) \<Rightarrow> 'a list \<Rightarrow> 'a list" where
  \<comment> \<open>\<open>Array.prototype.sort\<close> with a comparator: a stable sort\<close>
  "js_sort cmp xs = foldr (insort_cmp cmp) xs []"

section \<open>MonthlyGroupingService\<close>

definition getYearMonthKey :: "host \<Rightarrow> int \<Rightarrow> string" where
  "getYearMonthKey h date =
     (let year = getFullYear h date;
          month = padStart 2 CHR ''0'' (string_of_nat (getMonth h date + 1))
      in string_of_int year @ ''-'' @ month)"

fun map_push :: "string \<Rightarrow> 'a \<Rightarrow> (string \<times> 'a list) list \<Rightarrow> (string \<times> 'a list) list" where
  \<comment> \<open>\<open>if (!groups.has(k)) groups.set(k, []); groups.get(k).push(x)\<close> on a \<open>Map\<close>, which
      keeps its keys in insertion order\<close>
  "map_push k x [] = [(k, [x])]"
| "map_push k x ((k', xs) # g) =
     (if k = k' then (k', xs @ [x]) # g else (k', xs) # map_push k x g)"

definition pubTime :: "rss_item \<Rightarrow> int" where
  \<comment> \<open>\<open>item.pubDate.getTime()\<close>; the program calls it on items with a \<open>pubDate\<close> only\<close>
  "pubTime item = (case pubDate item of Some t \<Rightarrow> t | None \<Rightarrow> 0)"

definition byDateDescending :: "rss_item \<Rightarrow> rss_item \<Rightarrow> int" where
  "byDateDescending a b = pubTime b - pubTime a"

definition groupItemsByMonth :: "host \<Rightarrow> rss_item list \<Rightarrow> (string \<times> rss_item list) list" where
  "groupItemsByMonth h items =
     (let groups =
            foldl (\<lambda>groups item.
                     case pubDate item of
                       None \<Rightarrow> groups
                     | Some d \<Rightarrow> map_push (getYearMonthKey h d) item groups)
                  [] items;
          sortedItems = map (\<lambda>(key, groupItems). (key, js_sort byDateDescending groupItems)) groups
      in js_sort (\<lambda>a b. localeCompare (fst b) (fst a)) sortedItems)"

definition trailingSlashes :: matcher where
  \<comment> \<open>\<open>/\/+$/\<close>\<close>
  "trailingSlashes s =
     (if s \<noteq> [] \<and> list_all (\<lambda>c. c = CHR ''/'') s then Some (length s, []) else None)"

definition generateFilePath :: "string \<Rightarrow> string \<Rightarrow> string" where
  "generateFilePath yearMonth outputDir =
     (let year = splitFirst CHR ''-'' yearMonth;
          normalizedDir = js_replace trailingSlashes [] outputDir
      in normalizedDir @ ''/'' @ year @ ''/'' @ yearMonth @ ''.html'')"

definition getYearDirPath :: "string \<Rightarrow> string \<Rightarrow> string" where
  "getYearDirPath yearMonth outputDir =
     (let year = splitFirst CHR ''-'' yearMonth;
          normalizedDir = js_replace trailingSlashes [] outputDir
      in normalizedDir @ ''/'' @ year)"

definition filterNewItems :: "rss_item list \<Rightarrow> int option \<Rightarrow> string set \<Rightarrow> rss_item list" where
  "filterNewItems newItems lastDate existingLinks =
     filter (\<lambda>item.
               if pubDate item = None then False
               else if link item \<in> existingLinks then False
               else True)
            newItems"

definition countProcessableItems :: "rss_item list \<Rightarrow> nat" where
  "countProcessableItems items = length (filter (\<lambda>item. pubDate item \<noteq> None) items)"

definition countSkippedItems :: "rss_item list \<Rightarrow> nat" where
  "countSkippedItems items = length (filter (\<lambda>item. pubDate item = None) items)"

record adjacent =
  prevMonth :: "string option"
  nextMonth :: "string option"

fun list_indexOf :: "'a list \<Rightarrow> 'a \<Rightarrow> nat option" where
  "list_indexOf [] x = None"
| "list_indexOf (y # ys) x = (if y = x then Some 0 else map_option Suc (list_indexOf ys x))"

definition findAdjacentMonths :: "string \<Rightarrow> string list \<Rightarrow> adjacent" where
  "findAdjacentMonths currentYearMonth availableMonths =
     (let sorted = js_sort localeCompare availableMonths
      in case list_indexOf sorted currentYearMonth of
           None \<Rightarrow> \<lparr>prevMonth = None, nextMonth = None\<rparr>
         | Some currentIndex \<Rightarrow>
             \<lparr>prevMonth = (if 0 < currentIndex then Some (sorted ! (currentIndex - 1)) else None),
              nextMonth = (if currentIndex + 1 < length sorted
                           then Some (sorted ! (currentIndex + 1)) else None)\<rparr>)"

definition generateRelativePath :: "string \<Rightarrow> string \<Rightarrow> string" where
  "generateRelativePath fromYearMonth toYearMonth =
     (let fromYear = splitFirst CHR ''-'' fromYearMonth;
          toYear = splitFirst CHR ''-'' toYearMonth
      in if fromYear = toYear then toYearMonth @ ''.html''
         else ''../'' @ toYear @ ''/'' @ toYearMonth @ ''.html'')"

section \<open>HTMLTemplate and TemplateEngine\<close>

record html_template =
  content :: string

record rss_feed =
  feed_title :: string
  feed_description :: string
  feed_link :: string
  feed_language :: string
  feed_items :: "rss_item list"

text \<open>
  A thrown \<open>Error\<close>: its message, and the \<open>code\<close> property that errors of the file
  system carry.
\<close>

datatype errno = EACCES | EPERM | ENOSPC | ENOTDIR | ENOENT | EIO

datatype js_error = JsError (err_code: "errno option") (message: string)

abbreviation Error :: "string \<Rightarrow> js_error" where
  "Error msg \<equiv> JsError None msg"

text \<open>
  The engine's state: the configured date format, applied through the host's
  \<open>toLocaleDateString\<close> (\<open>None\<close> when that call throws), and the per-item template.
\<close>

record template_engine =
  dateFormat :: "int \<Rightarrow> string option"
  itemTemplate :: string

definition join :: "string \<Rightarrow> string list \<Rightarrow> string" where
  "join sep xs = (case xs of [] \<Rightarrow> [] | x # r \<Rightarrow> foldl (\<lambda>acc y. acc @ sep @ y) x r)"

definition newline :: string where
  "newline = [CHR 0x0A]"

definition defaultItemTemplate :: string where
  \<open>defaultItemTemplate = join newline
     [''<article>'',
      ''    <h2><a href="{{ITEM_LINK}}">{{ITEM_TITLE}}</a></h2>'',
      ''    <div class="meta">'',
      ''        <time>{{ITEM_DATE}}</time>'',
      ''        {{#ITEM_AUTHOR}}<span class="author">by {{ITEM_AUTHOR}}</span>{{/ITEM_AUTHOR}}'',
      ''    </div>'',
      ''    <div class="content">{{ITEM_DESCRIPTION}}</div>'',
      ''    {{#ITEM_CATEGORIES}}'',
      ''    <div class="categories">'',
      ''        Tags: {{ITEM_CATEGORIES}}'',
      ''    </div>'',
      ''    {{/ITEM_CATEGORIES}}'',
      ''</article>'']\<close>

definition newTemplateEngine :: "(int \<Rightarrow> string option) \<Rightarrow> template_engine" where
  "newTemplateEngine fmt = \<lparr>dateFormat = fmt, itemTemplate = defaultItemTemplate\<rparr>"

definition blockRegex :: "string \<Rightarrow> string \<Rightarrow> matcher" where
  \<comment> \<open>\<open>/open([\s\S]*?)close/\<close> for two literals; the group is the body\<close>
  "blockRegex opn cls s =
     do { r \<leftarrow> lit opn s;
          (body, r) \<leftarrow> lazyUntil cls r;
          r \<leftarrow> lit cls r;
          Some (length s - length r, [body]) }"

definition itemBlockRegex :: matcher where
  \<comment> \<open>\<open>/\{\{#ITEMS\}\}([\s\S]*?)\{\{\/ITEMS\}\}/\<close>\<close>
  "itemBlockRegex = blockRegex ''{{#ITEMS}}'' ''{{/ITEMS}}''"

definition extractItemTemplate :: "string \<Rightarrow> string option \<times> string" where
  "extractItemTemplate templateContent =
     (case regex_match itemBlockRegex templateContent of
        Some (m, caps) \<Rightarrow>
          (Some (trim (capture caps 1)),
           js_replace itemBlockRegex ''{{ITEMS}}'' templateContent)
      | None \<Rightarrow> (None, templateContent))"

definition substitute :: "string \<Rightarrow> (string \<times> string) list \<Rightarrow> string" where
  \<comment> \<open>\<open>Object.entries(vals).forEach\<close>: one global replacement of \<open>{{key}}\<close> per
      entry, in insertion order\<close>
  "substitute tmpl vals =
     foldl (\<lambda>result (key, val). js_replace_all (litRegex (''{{'' @ key @ ''}}'')) val result)
           tmpl vals"

definition escapeHTML :: "string \<Rightarrow> string" where
  \<open>escapeHTML text =
     (if text = [] then []
      else js_replace_all (litRegex [CHR 0x27]) ''&#39;''
            (js_replace_all (litRegex ''"'') ''&quot;''
              (js_replace_all (litRegex ''>'') ''&gt;''
                (js_replace_all (litRegex ''<'') ''&lt;''
                  (js_replace_all (litRegex ''&'') ''&amp;'' text)))))\<close>

definition tagPair :: "string \<Rightarrow> string \<Rightarrow> string \<Rightarrow> (string \<times> string \<times> string \<times> string) option" where
  \<comment> \<open>\<open>/<tag[^>]*>[\s\S]*?<\/tag>/i\<close>: the opening tag, the body, the closing tag as
      matched, and the rest of the input\<close>
  "tagPair opn cls s =
     do { r \<leftarrow> lit_ci opn s;
          r \<leftarrow> many (\<lambda>c. c \<noteq> CHR ''>'') r;
          r2 \<leftarrow> lit ''>'' r;
          (body, r3) \<leftarrow> lazyUntil_ci cls r2;
          r4 \<leftarrow> lit_ci cls r3;
          Some (take (length s - length r2) s, body, take (length cls) r3, r4) }"

definition scriptRegex :: matcher where
  \<comment> \<open>\<open>/<script[^>]*>.*?<\/script>/gis\<close>\<close>
  "scriptRegex s =
     map_option (\<lambda>(opn, body, cls, r). (length s - length r, [])) (tagPair ''<script'' ''</script>'' s)"

definition iframeRegex :: matcher where
  \<comment> \<open>\<open>/<iframe[^>]*>.*?<\/iframe>/gis\<close>\<close>
  "iframeRegex s =
     map_option (\<lambda>(opn, body, cls, r). (length s - length r, [])) (tagPair ''<iframe'' ''</iframe>'' s)"

definition eventHandlerRegex :: matcher where
  \<comment> \<open>\<open>/on\w+="[^"]*"/gi\<close>\<close>
  \<open>eventHandlerRegex s =
     do { r \<leftarrow> lit_ci ''on'' s;
          r \<leftarrow> many1 isWordChar r;
          r \<leftarrow> lit ''="'' r;
          r \<leftarrow> many (\<lambda>c. c \<noteq> CHR ''"'') r;
          r \<leftarrow> lit ''"'' r;
          Some (length s - length r, []) }\<close>

definition srcRegex :: matcher where
  \<comment> \<open>\<open>/src="\/([^"]+)"/g\<close>\<close>
  \<open>srcRegex s =
     do { r \<leftarrow> lit ''src="/'' s;
          r' \<leftarrow> many1 (\<lambda>c. c \<noteq> CHR ''"'') r;
          r'' \<leftarrow> lit ''"'' r';
          Some (length s - length r'', [take (length r - length r') r]) }\<close>

definition processItemDescription :: "string \<Rightarrow> string" where
  \<open>processItemDescription descr =
     (if descr = [] then []
      else let processed =
                 js_replace_all eventHandlerRegex []
                   (js_replace_all iframeRegex []
                     (js_replace_all scriptRegex [] descr))
           in js_replace_all srcRegex ''src="/$1"'' processed)\<close>

definition hasAuthor :: "rss_item \<Rightarrow> bool" where
  "hasAuthor item = (author item \<noteq> [] \<and> 0 < length (trim (author item)))"

definition hasCategories :: "rss_item \<Rightarrow> bool" where
  "hasCategories item = (0 < length (categories item))"

definition getCategoriesString :: "rss_item \<Rightarrow> string" where
  "getCategoriesString item = join '', '' (categories item)"

definition getFormattedPubDate :: "host \<Rightarrow> rss_item \<Rightarrow> string" where
  "getFormattedPubDate h item =
     (case pubDate item of
        None \<Rightarrow> []
      | Some d \<Rightarrow> splitFirst CHR ''T'' (toISOString h d))"

definition formatItemDate :: "host \<Rightarrow> template_engine \<Rightarrow> rss_item \<Rightarrow> string" where
  "formatItemDate h eng item =
     (case pubDate item of
        None \<Rightarrow> []
      | Some d \<Rightarrow>
          (case dateFormat eng d of
             Some text \<Rightarrow> text
           | None \<Rightarrow> getFormattedPubDate h item))"

definition orElse :: "string \<Rightarrow> string \<Rightarrow> string" where
  \<comment> \<open>\<open>s || d\<close> on strings: the empty string is falsy\<close>
  "orElse s d = (if s = [] then d else s)"

definition generateItemHTML :: "host \<Rightarrow> template_engine \<Rightarrow> rss_item \<Rightarrow> string" where
  "generateItemHTML h eng item =
     (let itemValues =
            [(''ITEM_TITLE'', escapeHTML (orElse (title item) ''Untitled'')),
             (''ITEM_LINK'', orElse (link item) ''#''),
             (''ITEM_DESCRIPTION'', processItemDescription (orElse (description item) [])),
             (''ITEM_DATE'', formatItemDate h eng item),
             (''ITEM_AUTHOR'', if hasAuthor item then escapeHTML (author item) else []),
             (''ITEM_CATEGORIES'',
                if hasCategories item then escapeHTML (getCategoriesString item) else [])];
          html = itemTemplate eng;
          html = (if hasAuthor item
                  then js_replace_all (litRegex ''{{/ITEM_AUTHOR}}'') []
                         (js_replace_all (litRegex ''{{#ITEM_AUTHOR}}'') [] html)
                  else js_replace_all
                         (blockRegex ''{{#ITEM_AUTHOR}}'' ''{{/ITEM_AUTHOR}}'') [] html);
          html = (if hasCategories item
                  then js_replace_all (litRegex ''{{/ITEM_CATEGORIES}}'') []
                         (js_replace_all (litRegex ''{{#ITEM_CATEGORIES}}'') [] html)
                  else js_replace_all
                         (blockRegex ''{{#ITEM_CATEGORIES}}'' ''{{/ITEM_CATEGORIES}}'') [] html)
      in substitute html itemValues)"

definition generateItemsHTML :: "host \<Rightarrow> template_engine \<Rightarrow> rss_item list \<Rightarrow> string" where
  "generateItemsHTML h eng its =
     (if length its = 0 then ''<p>No items available.</p>''
      else join (newline @ newline) (map (generateItemHTML h eng) its))"

record gen_options =
  opt_yearMonth :: string
  opt_pageItems :: "rss_item list option"
  opt_adjacentMonths :: "adjacent option"
  opt_generateRelativePath :: "string \<Rightarrow> string \<Rightarrow> string"

definition truthy :: "string option \<Rightarrow> bool" where
  \<comment> \<open>a string or \<open>null\<close> as a condition\<close>
  "truthy v = (case v of None \<Rightarrow> False | Some s \<Rightarrow> s \<noteq> [])"

definition createMonthlyNavigation ::
  "string \<Rightarrow> adjacent \<Rightarrow> (string \<Rightarrow> string \<Rightarrow> string) \<Rightarrow> string" where
  \<open>createMonthlyNavigation currentYearMonth adj relPath =
     (if \<not> truthy (prevMonth adj) \<and> \<not> truthy (nextMonth adj) then []
      else ''<nav class="monthly-nav">'' @ newline
        @ (case nextMonth adj of
             Some nxt \<Rightarrow>
               (if nxt \<noteq> []
                then ''  <a href="'' @ relPath currentYearMonth nxt
                     @ ''" class="next-month">&laquo; '' @ nxt @ ''</a>'' @ newline
                else ''  <span class="next-month disabled"></span>'' @ newline)
           | None \<Rightarrow> ''  <span class="next-month disabled"></span>'' @ newline)
        @ ''  <span class="current-month">'' @ currentYearMonth @ ''</span>'' @ newline
        @ (case prevMonth adj of
             Some prv \<Rightarrow>
               (if prv \<noteq> []
                then ''  <a href="'' @ relPath currentYearMonth prv
                     @ ''" class="prev-month">'' @ prv @ '' &raquo;</a>'' @ newline
                else ''  <span class="prev-month disabled"></span>'' @ newline)
           | None \<Rightarrow> ''  <span class="prev-month disabled"></span>'' @ newline)
        @ ''</nav>'')\<close>

definition prepareFeedValues :: "rss_feed \<Rightarrow> (string \<times> string) list" where
  "prepareFeedValues feed =
     [(''FEED_TITLE'', orElse (feed_title feed) []),
      (''FEED_DESCRIPTION'', orElse (feed_description feed) []),
      (''FEED_LINK'', orElse (feed_link feed) []),
      (''FEED_LANGUAGE'', orElse (feed_language feed) ''en''),
      (''TOTAL_ITEMS'', string_of_nat (length (feed_items feed)))]"

definition prepareMonthlyValues :: "host \<Rightarrow> int \<Rightarrow> gen_options \<Rightarrow> (string \<times> string) list" where
  \<comment> \<open>\<open>now\<close> is the reading of the clock by \<open>new Date()\<close>\<close>
  "prepareMonthlyValues h now opts =
     [(''YEAR_MONTH'', opt_yearMonth opts),
      (''META_DATE'', toISOString h now),
      (''MONTHLY_NAV'',
         case opt_adjacentMonths opts of
           Some adj \<Rightarrow>
             createMonthlyNavigation (opt_yearMonth opts) adj (opt_generateRelativePath opts)
         | None \<Rightarrow> [])]"

definition generationDate :: "host \<Rightarrow> int \<Rightarrow> string" where
  \<comment> \<open>\<open>new Date().toISOString().replace('T', ' ').substring(0, 19)\<close>\<close>
  "generationDate h now = take 19 (js_replace (litRegex ''T'') '' '' (toISOString h now))"

text \<open>
  \<open>generateHTML\<close> reads the clock twice (for \<open>META_DATE\<close>, when a year-month is given, and
  for \<open>GENERATION_DATE\<close>) and may overwrite the engine's item template: it returns the page
  and the engine as it leaves it. Nothing in its \<open>try\<close> block throws on well-typed
  arguments.
\<close>

definition generateHTML ::
  "host \<Rightarrow> int \<Rightarrow> int \<Rightarrow> template_engine \<Rightarrow> rss_feed \<Rightarrow> html_template \<Rightarrow> gen_options
     \<Rightarrow> string \<times> template_engine" where
  "generateHTML h metaNow genNow eng feed template opts =
     (let extraction = extractItemTemplate (content template);
          processedContent = snd extraction;
          eng' = (case fst extraction of
                    Some t \<Rightarrow> if t \<noteq> [] then eng\<lparr>itemTemplate := t\<rparr> else eng
                  | None \<Rightarrow> eng);
          vals = prepareFeedValues feed
                 @ (if opt_yearMonth opts \<noteq> [] then prepareMonthlyValues h metaNow opts else []);
          itemsToRender = (case opt_pageItems opts of Some its \<Rightarrow> its | None \<Rightarrow> feed_items feed);
          vals = vals @ [(''ITEMS'', generateItemsHTML h eng' itemsToRender)];
          vals = vals @ [(''GENERATION_DATE'', generationDate h genNow)]
      in (substitute processedContent vals, eng'))"

definition hasPlaceholder :: "html_template \<Rightarrow> string \<Rightarrow> bool" where
  "hasPlaceholder t placeholder =
     (let normalizedPlaceholder =
            (if startsWith placeholder ''{{'' then placeholder else ''{{'' @ placeholder @ ''}}'')
      in includes_str (content t) normalizedPlaceholder)"

text \<open>
  \<open>validateTemplate\<close> throws or returns; what it prints with \<open>console.warn\<close> is its
  result. The argument is \<open>None\<close> for a value that is not an \<open>HTMLTemplate\<close>.
\<close>

definition validateTemplate :: "html_template option \<Rightarrow> js_error + string list" where
  "validateTemplate template =
     (case template of
        None \<Rightarrow> Inl (Error ''Invalid template: must be HTMLTemplate instance'')
      | Some t \<Rightarrow>
          (let hasItemsPlaceholder = includes_str (content t) ''{{ITEMS}}'';
               hasItemsBlock = regex_test itemBlockRegex (content t);
               hasItems = (hasItemsPlaceholder \<or> hasItemsBlock);
               missing = (if \<not> hasPlaceholder t ''{{FEED_TITLE}}'' then [''{{FEED_TITLE}}''] else [])
                         @ (if \<not> hasItems then [''{{ITEMS}} or {{#ITEMS}}...{{/ITEMS}}''] else []);
               warnings = (if 0 < length missing
                           then [''Template missing recommended placeholders: ''
                                 @ join '', '' missing]
                           else []);
               itemsPlaceholderCount = length (matchAll (litRegex ''{{ITEMS}}'') (content t));
               itemsBlockCount = length (matchAll (litRegex ''{{#ITEMS}}'') (content t));
               totalItemsCount = itemsPlaceholderCount + itemsBlockCount
           in if totalItemsCount \<noteq> 1
              then Inl (Error
                ''{{ITEMS}} or {{#ITEMS}}...{{/ITEMS}} must appear exactly once in template'')
              else Inr warnings))"

fun lastFrom :: "(string \<Rightarrow> 'a option) \<Rightarrow> string \<Rightarrow> nat \<Rightarrow> 'a option" where
  \<comment> \<open>a greedy run of one character or more, of at most \<open>n\<close>, before a part \<open>f\<close> that the
      run's class does not exclude: the engine backtracks from the longest run\<close>
  "lastFrom f r 0 = None"
| "lastFrom f r (Suc t) =
     (case f (drop (Suc t) r) of Some x \<Rightarrow> Some x | None \<Rightarrow> lastFrom f r t)"

definition classNextMonth :: "string \<Rightarrow> string option" where
  \<comment> \<open>\<open>class="[^"]*next-month[^"]*"[^>]*>\<close>; the result is the rest of the input\<close>
  \<open>classNextMonth s =
     do { r \<leftarrow> lit ''class="'' s;
          r' \<leftarrow> many (\<lambda>c. c \<noteq> CHR ''"'') r;
          r'' \<leftarrow> lit ''"'' r';
          if includes_str (take (length r - length r') r) ''next-month''
          then do { r''' \<leftarrow> many (\<lambda>c. c \<noteq> CHR ''>'') r''; lit ''>'' r''' }
          else None }\<close>

definition nextLinkRegex :: matcher where
  \<comment> \<open>\<open>/<a[^>]+class="[^"]*next-month[^"]*"[^>]*>/\<close>\<close>
  "nextLinkRegex s =
     do { r \<leftarrow> lit ''<a'' s;
          r' \<leftarrow> lastFrom classNextMonth r (length (takeWhile (\<lambda>c. c \<noteq> CHR ''>'') r));
          Some (length s - length r', []) }"

definition disabledNextSpan :: string where
  \<open>disabledNextSpan = ''<span class="next-month disabled"></span>''\<close>

definition disabledNextPattern :: matcher where
  \<comment> \<open>\<open>/<span class="next-month disabled"><\/span>/\<close>\<close>
  "disabledNextPattern = litRegex disabledNextSpan"

definition updateNextLink ::
  "string \<Rightarrow> string \<Rightarrow> (string \<Rightarrow> string \<Rightarrow> string) \<Rightarrow> string \<Rightarrow> string" where
  \<open>updateNextLink html nextYearMonth relPath currentYearMonth =
     (let hasNextLink = regex_test nextLinkRegex html
      in if hasNextLink then html
         else if regex_test disabledNextPattern html then
           (let nextPath = relPath currentYearMonth nextYearMonth;
                nextLink = ''<a href="'' @ nextPath @ ''" class="next-month">&laquo; ''
                           @ nextYearMonth @ ''</a>''
            in js_replace disabledNextPattern nextLink html)
         else html)\<close>

section \<open>HtmlParserService\<close>

definition optional :: "string \<Rightarrow> string \<Rightarrow> string option" where
  \<comment> \<open>a greedy optional literal before something that does not start like it\<close>
  "optional p s = Some (if startsWith s p then drop (length p) s else s)"

definition notQuote :: "char \<Rightarrow> bool" where
  \<comment> \<open>the class \<open>[^"']\<close>\<close>
  "notQuote c = (\<not> isQuote c)"

definition metaDatePattern1 :: matcher where
  \<comment> \<open>\<open>/<meta\s+name=["']date["']\s+content=["']([^"']+)["']\s*\/?>/i\<close>\<close>
  "metaDatePattern1 s =
     do { r \<leftarrow> lit_ci ''<meta'' s;
          r \<leftarrow> many1 isWhiteSpace r;
          r \<leftarrow> lit_ci ''name='' r;
          r \<leftarrow> quote r;
          r \<leftarrow> lit_ci ''date'' r;
          r \<leftarrow> quote r;
          r \<leftarrow> many1 isWhiteSpace r;
          r \<leftarrow> lit_ci ''content='' r;
          v \<leftarrow> quote r;
          r \<leftarrow> many1 notQuote v;
          r' \<leftarrow> quote r;
          r' \<leftarrow> many isWhiteSpace r';
          r' \<leftarrow> optional ''/'' r';
          r' \<leftarrow> lit ''>'' r';
          Some (length s - length r', [take (length v - length r) v]) }"

definition metaDatePattern2 :: matcher where
  \<comment> \<open>\<open>/<meta\s+content=["']([^"']+)["']\s+name=["']date["']\s*\/?>/i\<close>\<close>
  "metaDatePattern2 s =
     do { r \<leftarrow> lit_ci ''<meta'' s;
          r \<leftarrow> many1 isWhiteSpace r;
          r \<leftarrow> lit_ci ''content='' r;
          v \<leftarrow> quote r;
          r \<leftarrow> many1 notQuote v;
          r' \<leftarrow> quote r;
          r' \<leftarrow> many1 isWhiteSpace r';
          r' \<leftarrow> lit_ci ''name='' r';
          r' \<leftarrow> quote r';
          r' \<leftarrow> lit_ci ''date'' r';
          r' \<leftarrow> quote r';
          r' \<leftarrow> many isWhiteSpace r';
          r' \<leftarrow> optional ''/'' r';
          r' \<leftarrow> lit ''>'' r';
          Some (length s - length r', [take (length v - length r) v]) }"

definition extractMetaDate :: "host \<Rightarrow> string \<Rightarrow> int option" where
  "extractMetaDate h htmlContent =
     (let tryPattern = (\<lambda>pattern.
            case regex_match pattern htmlContent of
              Some (m, caps) \<Rightarrow> if capture caps 1 \<noteq> [] then dateParse h (capture caps 1) else None
            | None \<Rightarrow> None)
      in case tryPattern metaDatePattern1 of
           Some date \<Rightarrow> Some date
         | None \<Rightarrow> tryPattern metaDatePattern2)"

definition articleRegex :: matcher where
  \<comment> \<open>\<open>/<article[^>]*>([\s\S]*?)<\/article>/gi\<close>\<close>
  "articleRegex s =
     map_option (\<lambda>(opn, body, cls, r). (length s - length r, [body]))
       (tagPair ''<article'' ''</article>'' s)"

definition hrefAttr :: "string \<Rightarrow> (string \<times> string) option" where
  \<comment> \<open>\<open>href=["']([^"']+)["']\<close> with flag \<open>i\<close>: the value and the rest of the input\<close>
  "hrefAttr s =
     do { r \<leftarrow> lit_ci ''href='' s;
          v \<leftarrow> quote r;
          r \<leftarrow> many1 notQuote v;
          r' \<leftarrow> quote r;
          Some (take (length v - length r) v, r') }"

definition anyLinkRegex :: matcher where
  \<comment> \<open>\<open>/<a\s+[^>]*href=["']([^"']+)["']/gi\<close>: after \<open><a\<close> and one white space, the runs
      \<open>\s+[^>]*\<close> together are a run of characters other than \<open>>\<close>\<close>
  "anyLinkRegex s =
     do { r \<leftarrow> lit_ci ''<a'' s;
          _ \<leftarrow> many1 isWhiteSpace r;
          (v, r') \<leftarrow> lastFrom hrefAttr r (length (takeWhile (\<lambda>c. c \<noteq> CHR ''>'') r));
          Some (length s - length r', [v]) }"

definition h2LinkRegex :: matcher where
  \<comment> \<open>\<open>/<h2[^>]*>\s*<a\s+[^>]*href=["']([^"']+)["']/i\<close>\<close>
  "h2LinkRegex s =
     do { r \<leftarrow> lit_ci ''<h2'' s;
          r \<leftarrow> many (\<lambda>c. c \<noteq> CHR ''>'') r;
          r \<leftarrow> lit ''>'' r;
          r \<leftarrow> many isWhiteSpace r;
          (n, caps) \<leftarrow> anyLinkRegex r;
          Some (length s - length r + n, caps) }"

definition articleLink :: "string \<Rightarrow> string option" where
  \<comment> \<open>the body of the loop over the articles: the link of the heading, or else the first
      link that is not a fragment\<close>
  "articleLink articleContent =
     (case regex_match h2LinkRegex articleContent of
        Some (m, caps) \<Rightarrow>
          (if capture caps 1 \<noteq> [] then Some (capture caps 1)
           else map_option (\<lambda>(m, caps). capture caps 1)
                  (find (\<lambda>(m, caps). capture caps 1 \<noteq> [] \<and> \<not> startsWith (capture caps 1) ''#'')
                        (matchAll anyLinkRegex articleContent)))
      | None \<Rightarrow>
          map_option (\<lambda>(m, caps). capture caps 1)
            (find (\<lambda>(m, caps). capture caps 1 \<noteq> [] \<and> \<not> startsWith (capture caps 1) ''#'')
                  (matchAll anyLinkRegex articleContent)))"

definition extractExistingLinks :: "string \<Rightarrow> string set" where
  "extractExistingLinks htmlContent =
     foldl (\<lambda>links (m, caps).
              case articleLink (capture caps 1) of
                Some l \<Rightarrow> insert l links
              | None \<Rightarrow> links)
           {} (matchAll articleRegex htmlContent)"

definition existingMetaRegex :: matcher where
  \<comment> \<open>\<open>/<meta\s+(name=["']date["']\s+content=["'])[^"']*["']/i\<close>\<close>
  "existingMetaRegex s =
     do { r \<leftarrow> lit_ci ''<meta'' s;
          g \<leftarrow> many1 isWhiteSpace r;
          r \<leftarrow> lit_ci ''name='' g;
          r \<leftarrow> quote r;
          r \<leftarrow> lit_ci ''date'' r;
          r \<leftarrow> quote r;
          r \<leftarrow> many1 isWhiteSpace r;
          r \<leftarrow> lit_ci ''content='' r;
          v \<leftarrow> quote r;
          r \<leftarrow> many notQuote v;
          r' \<leftarrow> quote r;
          Some (length s - length r', [take (length g - length v) g]) }"

definition existingMetaRegex2 :: matcher where
  \<comment> \<open>\<open>/<meta\s+(content=["'])[^"']*["']\s+(name=["']date["'])/i\<close>\<close>
  "existingMetaRegex2 s =
     do { r \<leftarrow> lit_ci ''<meta'' s;
          g \<leftarrow> many1 isWhiteSpace r;
          r \<leftarrow> lit_ci ''content='' g;
          v \<leftarrow> quote r;
          r \<leftarrow> many notQuote v;
          r \<leftarrow> quote r;
          g2 \<leftarrow> many1 isWhiteSpace r;
          r \<leftarrow> lit_ci ''name='' g2;
          r \<leftarrow> quote r;
          r \<leftarrow> lit_ci ''date'' r;
          r' \<leftarrow> quote r;
          Some (length s - length r',
                [take (length g - length v) g, take (length g2 - length r') g2]) }"

definition headRegex :: matcher where
  \<comment> \<open>\<open>/(<head[^>]*>)/i\<close>\<close>
  "headRegex s =
     do { r \<leftarrow> lit_ci ''<head'' s;
          r \<leftarrow> many (\<lambda>c. c \<noteq> CHR ''>'') r;
          r \<leftarrow> lit ''>'' r;
          Some (length s - length r, [take (length s - length r) s]) }"

definition updateMetaDate :: "host \<Rightarrow> string \<Rightarrow> int \<Rightarrow> string" where
  \<open>updateMetaDate h htmlContent newDate =
     (let isoDate = toISOString h newDate
      in if regex_test existingMetaRegex htmlContent
         then js_replace existingMetaRegex (''<meta $1'' @ isoDate @ ''"'') htmlContent
         else if regex_test existingMetaRegex2 htmlContent
         then js_replace existingMetaRegex2 (''<meta $1'' @ isoDate @ ''" $2'') htmlContent
         else if regex_test headRegex htmlContent
         then js_replace headRegex
                (''$1'' @ newline @ ''    <meta name="date" content="'' @ isoDate @ ''">'')
                htmlContent
         else htmlContent)\<close>

section \<open>FeedToHtml: merging a page\<close>

definition mainContentRegex :: matcher where
  \<comment> \<open>\<open>/<main[^>]*>([\s\S]*?)<\/main>/i\<close>\<close>
  "mainContentRegex s =
     map_option (\<lambda>(opn, body, cls, r). (length s - length r, [body]))
       (tagPair ''<main'' ''</main>'' s)"

definition mainShellRegex :: matcher where
  \<comment> \<open>\<open>/(<main[^>]*>)[\s\S]*?(<\/main>)/i\<close>\<close>
  "mainShellRegex s =
     map_option (\<lambda>(opn, body, cls, r). (length s - length r, [opn, cls]))
       (tagPair ''<main'' ''</main>'' s)"

definition mainContent :: "string \<Rightarrow> string" where
  \<comment> \<open>\<open>m = html.match(/<main...>/i); m ? m[1].trim() : ''\<close>\<close>
  "mainContent html =
     (case regex_match mainContentRegex html of
        Some (m, caps) \<Rightarrow> trim (capture caps 1)
      | None \<Rightarrow> [])"

definition mergeHtmlContent :: "host \<Rightarrow> int \<Rightarrow> string \<Rightarrow> string \<Rightarrow> rss_item list \<Rightarrow> string" where
  \<comment> \<open>\<open>now\<close> is the reading of the clock by \<open>new Date()\<close>\<close>
  "mergeHtmlContent h now existingHtml newHtml newItems =
     (let newItemsHtml = mainContent newHtml;
          existingItemsHtml = mainContent existingHtml;
          mergedItemsHtml = newItemsHtml @ newline @ newline @ existingItemsHtml;
          mergedHtml = js_replace mainShellRegex
                         (''$1'' @ newline @ ''    '' @ mergedItemsHtml @ newline @ ''    $2'')
                         existingHtml
      in updateMetaDate h mergedHtml now)"

section \<open>The file system\<close>

text \<open>
  Files are kept by path, directories are a list of paths. \<open>fault\<close> is the environment:
  the operations that fail, and how. \<open>journal\<close> records every change made, so that
  the number of writes of a run can be stated.
\<close>

datatype fs_op = OpRead string | OpWrite string | OpUnlink string | OpMkdir string

datatype fs_event = Wrote string | Unlinked string | MadeDir string

record filesystem =
  files :: "(string \<times> string) list"
  dirs :: "string list"
  fault :: "fs_op \<Rightarrow> errno option"
  journal :: "fs_event list"

fun writes :: "fs_event list \<Rightarrow> string list" where
  \<comment> \<open>the paths written, in order\<close>
  "writes [] = []"
| "writes (Wrote p # evs) = p # writes evs"
| "writes (ev # evs) = writes evs"

definition errnoName :: "errno \<Rightarrow> string" where
  "errnoName e =
     (case e of EACCES \<Rightarrow> ''EACCES'' | EPERM \<Rightarrow> ''EPERM'' | ENOSPC \<Rightarrow> ''ENOSPC''
      | ENOTDIR \<Rightarrow> ''ENOTDIR'' | ENOENT \<Rightarrow> ''ENOENT'' | EIO \<Rightarrow> ''EIO'')"

definition fsError :: "errno \<Rightarrow> string \<Rightarrow> js_error" where
  \<comment> \<open>the host's error: its message starts with the name of the code\<close>
  "fsError e p = JsError (Some e) (errnoName e @ '': '' @ p)"

definition existsSync :: "filesystem \<Rightarrow> string \<Rightarrow> bool" where
  "existsSync fs p = (map_of (files fs) p \<noteq> None \<or> p \<in> set (dirs fs))"

definition readFileSync :: "filesystem \<Rightarrow> string \<Rightarrow> js_error + string" where
  "readFileSync fs p =
     (case fault fs (OpRead p) of
        Some e \<Rightarrow> Inl (fsError e p)
      | None \<Rightarrow>
          (case map_of (files fs) p of
             None \<Rightarrow> Inl (fsError ENOENT p)
           | Some text \<Rightarrow> Inr text))"

definition writeFileSync :: "filesystem \<Rightarrow> string \<Rightarrow> string \<Rightarrow> js_error + filesystem" where
  "writeFileSync fs p text =
     (case fault fs (OpWrite p) of
        Some e \<Rightarrow> Inl (fsError e p)
      | None \<Rightarrow>
          Inr (fs\<lparr>files := AList.update p text (files fs), journal := journal fs @ [Wrote p]\<rparr>))"

definition unlinkSync :: "filesystem \<Rightarrow> string \<Rightarrow> js_error + filesystem" where
  "unlinkSync fs p =
     (case fault fs (OpUnlink p) of
        Some e \<Rightarrow> Inl (fsError e p)
      | None \<Rightarrow>
          (case map_of (files fs) p of
             None \<Rightarrow> Inl (fsError ENOENT p)
           | Some text \<Rightarrow>
               Inr (fs\<lparr>files := AList.delete p (files fs),
                       journal := journal fs @ [Unlinked p]\<rparr>)))"

definition mkdirSync :: "filesystem \<Rightarrow> string \<Rightarrow> js_error + filesystem" where
  \<comment> \<open>with \<open>recursive: true\<close>\<close>
  "mkdirSync fs p =
     (case fault fs (OpMkdir p) of
        Some e \<Rightarrow> Inl (fsError e p)
      | None \<Rightarrow> Inr (fs\<lparr>dirs := List.insert p (dirs fs), journal := journal fs @ [MadeDir p]\<rparr>))"

section \<open>OutputFile and FileWriter\<close>

record output_file =
  filename :: string
  file_content :: string
  itemCount :: nat
  pageNumber :: nat

definition createMonthly :: "string \<Rightarrow> string \<Rightarrow> string \<Rightarrow> nat \<Rightarrow> js_error + output_file" where
  \<comment> \<open>the constructor validates: of its checks only those of the content can fail here\<close>
  "createMonthly yearMonth outputDir text count =
     (let year = splitFirst CHR ''-'' yearMonth;
          name = year @ ''/'' @ yearMonth @ ''.html''
      in if text = [] then Inl (Error ''Content is required and must be a string'')
         else if length (trim text) = 0 then Inl (Error ''Content cannot be empty'')
         else Inr \<lparr>filename = name, file_content = text, itemCount = count, pageNumber = 1\<rparr>)"

fun charBytes :: "char \<Rightarrow> int" where
  "charBytes (Char b0 b1 b2 b3 b4 b5 b6 b7) = (if b7 then 2 else 1)"

definition getSize :: "output_file \<Rightarrow> int" where
  \<comment> \<open>\<open>Buffer.byteLength(content, 'utf8')\<close>\<close>
  "getSize f = sum_list (map charBytes (file_content f))"

record written_file =
  wf_path :: string
  wf_size :: int
  wf_itemCount :: nat
  wf_pageNumber :: nat

text \<open>
  The state a run works on: the file system, the \<open>writtenFiles\<close> of the \<open>FileWriter\<close>, the
  \<open>TemplateEngine\<close>, and the number of readings of the clock taken so far. An operation
  returns its result or the error it throws, and the state it leaves.
\<close>

record world =
  fs :: filesystem
  writtenFiles :: "written_file list"
  engine :: template_engine
  ticks :: nat

definition ensureDirectoryExists :: "string \<Rightarrow> filesystem \<Rightarrow> js_error + filesystem" where
  "ensureDirectoryExists dirPath fsys =
     (if \<not> existsSync fsys dirPath then
        (case mkdirSync fsys dirPath of
           Inr fsys' \<Rightarrow> Inr fsys'
         | Inl e \<Rightarrow>
             (if err_code e = Some EACCES \<or> err_code e = Some EPERM
              then Inl (Error (''FILESYSTEM Permission denied: cannot create directory '' @ dirPath))
              else Inl (Error (''FILESYSTEM Failed to create directory '' @ dirPath @ '': ''
                               @ message e))))
      else Inr fsys)"

definition writeFileError :: "js_error \<Rightarrow> output_file \<Rightarrow> js_error" where
  \<comment> \<open>the \<open>catch\<close> of \<open>writeFile\<close>\<close>
  "writeFileError e outputFile =
     (if err_code e = Some EACCES \<or> err_code e = Some EPERM
      then Error (''FILESYSTEM Permission denied: cannot write to '' @ filename outputFile)
      else if err_code e = Some ENOSPC
      then Error (''FILESYSTEM Disk full: cannot write '' @ filename outputFile)
      else if err_code e = Some ENOTDIR
      then Error (''FILESYSTEM Invalid path: '' @ filename outputFile
                  @ '' contains non-directory component'')
      else if startsWith (message e) ''FILESYSTEM'' then e
      else Error (''FILESYSTEM Failed to write file '' @ filename outputFile @ '': '' @ message e))"

definition writeFile :: "host \<Rightarrow> output_file \<Rightarrow> string \<Rightarrow> world \<Rightarrow> (js_error + string) \<times> world" where
  "writeFile h outputFile outputDir w =
     (let absolutePath = resolve h outputDir (filename outputFile);
          dirPath = dirname h absolutePath
      in case ensureDirectoryExists dirPath (fs w) of
           Inl e \<Rightarrow> (Inl (writeFileError e outputFile), w)
         | Inr fs1 \<Rightarrow>
             (case writeFileSync fs1 absolutePath (file_content outputFile) of
                Inl e \<Rightarrow> (Inl (writeFileError e outputFile), w\<lparr>fs := fs1\<rparr>)
              | Inr fs2 \<Rightarrow>
                  (Inr absolutePath,
                   w\<lparr>fs := fs2,
                     writtenFiles := writtenFiles w
                       @ [\<lparr>wf_path = absolutePath, wf_size = getSize outputFile,
                           wf_itemCount = itemCount outputFile,
                           wf_pageNumber = pageNumber outputFile\<rparr>]\<rparr>)))"

fun cleanupFiles :: "string list \<Rightarrow> filesystem \<Rightarrow> filesystem" where
  \<comment> \<open>a deletion that fails is reported on the console and the loop goes on\<close>
  "cleanupFiles [] fsys = fsys"
| "cleanupFiles (filePath # rest) fsys =
     (case unlinkSync fsys filePath of
        Inr fsys' \<Rightarrow> cleanupFiles rest fsys'
      | Inl e \<Rightarrow> cleanupFiles rest fsys)"

fun writeFilesLoop ::
  "host \<Rightarrow> string \<Rightarrow> output_file list \<Rightarrow> string list \<Rightarrow> world \<Rightarrow> (js_error + string list) \<times> world" where
  "writeFilesLoop h outputDir [] writtenPaths w = (Inr writtenPaths, w)"
| "writeFilesLoop h outputDir (outputFile # rest) writtenPaths w =
     (case writeFile h outputFile outputDir w of
        (Inr p, w') \<Rightarrow> writeFilesLoop h outputDir rest (writtenPaths @ [p]) w'
      | (Inl e, w') \<Rightarrow> (Inl e, w'\<lparr>fs := cleanupFiles writtenPaths (fs w')\<rparr>))"

definition writeFiles ::
  "host \<Rightarrow> output_file list \<Rightarrow> string \<Rightarrow> world \<Rightarrow> (js_error + string list) \<times> world" where
  "writeFiles h outputFiles outputDir w = writeFilesLoop h outputDir outputFiles [] w"

definition validateOutputDirectory :: "host \<Rightarrow> string \<Rightarrow> filesystem \<Rightarrow> js_error + filesystem" where
  \<comment> \<open>\<open>resolve(dir)\<close> is \<open>resolve(dir, '')\<close>, and \<open>join\<close> of a resolved directory and a
      name is their \<open>resolve\<close>\<close>
  "validateOutputDirectory h outputDir fsys =
     (let resolvedDir = resolve h outputDir [];
          testFile = resolve h resolvedDir ''.feedtohtml-write-test''
      in if \<not> existsSync fsys resolvedDir \<and> \<not> existsSync fsys (dirname h resolvedDir)
         then Inl (Error (''FILESYSTEM Parent directory does not exist: '' @ dirname h resolvedDir))
         else
           (case writeFileSync fsys testFile ''test'' of
              Inl e \<Rightarrow>
                (if err_code e = Some EACCES \<or> err_code e = Some EPERM
                 then Inl (Error (''FILESYSTEM Directory not writable: '' @ resolvedDir))
                 else if startsWith (message e) ''FILESYSTEM'' then Inl e
                 else Inl (Error (''FILESYSTEM Invalid output directory: '' @ message e)))
            | Inr fs1 \<Rightarrow>
                (case unlinkSync fs1 testFile of
                   Inr fs2 \<Rightarrow> Inr fs2
                 | Inl e \<Rightarrow> Inr fs1)))"

section \<open>FeedToHtml: the conversion run\<close>

definition categorizeError :: "js_error \<Rightarrow> string" where
  "categorizeError e =
     (if startsWith (message e) ''NETWORK'' then ''network''
      else if startsWith (message e) ''PARSE'' then ''parse''
      else if startsWith (message e) ''FILESYSTEM'' then ''filesystem''
      else if startsWith (message e) ''CONFIG'' then ''config''
      else ''unknown'')"

text \<open>The local variables of the loop over the monthly groups.\<close>

record loop_vars =
  outputFiles :: "output_file list"
  newlyCreatedPages :: "(string \<times> string) list"
  totalNewItems :: nat
  updatedFiles :: nat

text \<open>
  The part of the loop body after the check for an existing file: render the items, merge
  them into the existing page when there is one, and queue the output file. A year-month
  key is never empty, so \<open>generateHTML\<close> reads the clock twice.
\<close>

definition renderGroup ::
  "host \<Rightarrow> (nat \<Rightarrow> int) \<Rightarrow> rss_feed \<Rightarrow> html_template \<Rightarrow> string \<Rightarrow> string list
     \<Rightarrow> string \<Rightarrow> rss_item list \<Rightarrow> bool \<Rightarrow> loop_vars \<Rightarrow> world \<Rightarrow> (js_error + loop_vars) \<times> world" where
  "renderGroup h clock feed template outputDir availableMonths yearMonth itemsToRender isUpdate
     vars w =
     (let filePath = generateFilePath yearMonth outputDir;
          adj = findAdjacentMonths yearMonth availableMonths;
          vars1 = (case prevMonth adj of
                     Some prv \<Rightarrow>
                       (if \<not> isUpdate \<and> prv \<noteq> []
                        then vars\<lparr>newlyCreatedPages :=
                               newlyCreatedPages vars @ [(yearMonth, prv)]\<rparr>
                        else vars)
                   | None \<Rightarrow> vars);
          generated =
            generateHTML h (clock (ticks w)) (clock (ticks w + 1)) (engine w) feed template
              \<lparr>opt_yearMonth = yearMonth, opt_pageItems = Some itemsToRender,
               opt_adjacentMonths = Some adj, opt_generateRelativePath = generateRelativePath\<rparr>;
          htmlContent = fst generated;
          w1 = w\<lparr>engine := snd generated, ticks := ticks w + 2\<rparr>
      in if isUpdate then
           (case readFileSync (fs w1) filePath of
              Inl e \<Rightarrow> (Inl e, w1)
            | Inr existingHtml \<Rightarrow>
                (let finalHtml = mergeHtmlContent h (clock (ticks w1)) existingHtml htmlContent
                                   itemsToRender;
                     w2 = w1\<lparr>ticks := ticks w1 + 1\<rparr>
                 in case createMonthly yearMonth outputDir finalHtml (length itemsToRender) of
                      Inl e \<Rightarrow> (Inl e, w2)
                    | Inr outputFile \<Rightarrow>
                        (Inr (vars1\<lparr>outputFiles := outputFiles vars1 @ [outputFile]\<rparr>), w2)))
         else
           (case createMonthly yearMonth outputDir htmlContent (length itemsToRender) of
              Inl e \<Rightarrow> (Inl e, w1)
            | Inr outputFile \<Rightarrow>
                (Inr (vars1\<lparr>outputFiles := outputFiles vars1 @ [outputFile]\<rparr>), w1)))"

definition processGroup ::
  "host \<Rightarrow> (nat \<Rightarrow> int) \<Rightarrow> rss_feed \<Rightarrow> html_template \<Rightarrow> string \<Rightarrow> string list
     \<Rightarrow> string \<times> rss_item list \<Rightarrow> loop_vars \<Rightarrow> world \<Rightarrow> (js_error + loop_vars) \<times> world" where
  "processGroup h clock feed template outputDir availableMonths grp vars w =
     (let yearMonth = fst grp;
          its = snd grp;
          filePath = generateFilePath yearMonth outputDir;
          yearDirPath = getYearDirPath yearMonth outputDir
      in case (if \<not> existsSync (fs w) yearDirPath then mkdirSync (fs w) yearDirPath
               else Inr (fs w)) of
           Inl e \<Rightarrow> (Inl e, w)
         | Inr fs1 \<Rightarrow>
             (let w1 = w\<lparr>fs := fs1\<rparr>
              in if existsSync fs1 filePath then
                   (case readFileSync fs1 filePath of
                      Inl e \<Rightarrow> (Inl e, w1)
                    | Inr existingHtml \<Rightarrow>
                        (let lastDate = extractMetaDate h existingHtml;
                             existingLinks = extractExistingLinks existingHtml;
                             newItems = filterNewItems its lastDate existingLinks
                         in if length newItems = 0 then (Inr vars, w1)
                            else renderGroup h clock feed template outputDir availableMonths
                                   yearMonth newItems True
                                   (vars\<lparr>totalNewItems := totalNewItems vars + length newItems,
                                         updatedFiles := updatedFiles vars + 1\<rparr>)
                                   w1))
                 else renderGroup h clock feed template outputDir availableMonths
                        yearMonth its False
                        (vars\<lparr>totalNewItems := totalNewItems vars + length its\<rparr>)
                        w1))"

fun processGroups ::
  "host \<Rightarrow> (nat \<Rightarrow> int) \<Rightarrow> rss_feed \<Rightarrow> html_template \<Rightarrow> string \<Rightarrow> string list
     \<Rightarrow> (string \<times> rss_item list) list \<Rightarrow> loop_vars \<Rightarrow> world \<Rightarrow> (js_error + loop_vars) \<times> world" where
  "processGroups h clock feed template outputDir availableMonths [] vars w = (Inr vars, w)"
| "processGroups h clock feed template outputDir availableMonths (grp # rest) vars w =
     (case processGroup h clock feed template outputDir availableMonths grp vars w of
        (Inl e, w') \<Rightarrow> (Inl e, w')
      | (Inr vars', w') \<Rightarrow>
          processGroups h clock feed template outputDir availableMonths rest vars' w')"

fun patchPreviousPages ::
  "string \<Rightarrow> (string \<times> string) list \<Rightarrow> filesystem \<Rightarrow> js_error option \<times> filesystem" where
  \<comment> \<open>the loop over \<open>newlyCreatedPages\<close> after the files are written; the result is the
      error thrown, if any, and the file system as the loop leaves it\<close>
  "patchPreviousPages outputDir [] fsys = (None, fsys)"
| "patchPreviousPages outputDir ((yearMonth, prv) # rest) fsys =
     (let prevFilePath = generateFilePath prv outputDir
      in if existsSync fsys prevFilePath then
           (case readFileSync fsys prevFilePath of
              Inl e \<Rightarrow> (Some e, fsys)
            | Inr prevHtml \<Rightarrow>
                (let updatedHtml = updateNextLink prevHtml yearMonth generateRelativePath prv
                 in if updatedHtml \<noteq> prevHtml then
                      (case writeFileSync fsys prevFilePath updatedHtml of
                         Inl e \<Rightarrow> (Some e, fsys)
                       | Inr fsys' \<Rightarrow> patchPreviousPages outputDir rest fsys')
                    else patchPreviousPages outputDir rest fsys))
         else patchPreviousPages outputDir rest fsys)"

text \<open>
  The result of \<open>convert\<close>: the failure with its message and category, or the paths
  written with the counts of new items and of updated files.
\<close>

datatype conv_result = Failure string string | Success "string list" nat nat

definition failure :: "js_error \<Rightarrow> conv_result" where
  "failure e = Failure (message e) (categorizeError e)"

text \<open>
  \<open>convert\<close> from the point where the feed is parsed and validated and the template
  loaded: it validates the template, groups the items, runs the loop, writes the batch and
  patches the pages before the new ones. Whatever is thrown inside is caught and reported.
\<close>

definition convert ::
  "host \<Rightarrow> (nat \<Rightarrow> int) \<Rightarrow> rss_feed \<Rightarrow> html_template \<Rightarrow> string \<Rightarrow> world \<Rightarrow> conv_result \<times> world" where
  "convert h clock feed template outputDir w =
     (case validateTemplate (Some template) of
        Inl e \<Rightarrow> (failure e, w)
      | Inr warnings \<Rightarrow>
          (let w0 = w\<lparr>writtenFiles := []\<rparr>;
               monthlyGroups = groupItemsByMonth h (feed_items feed)
           in if length monthlyGroups = 0 then (Success [] 0 0, w0)
              else
                (case processGroups h clock feed template outputDir (map fst monthlyGroups)
                        monthlyGroups
                        \<lparr>outputFiles = [], newlyCreatedPages = [], totalNewItems = 0,
                         updatedFiles = 0\<rparr> w0 of
                   (Inl e, w1) \<Rightarrow> (failure e, w1)
                 | (Inr vars, w1) \<Rightarrow>
                     (if 0 < length (outputFiles vars) then
                        (case validateOutputDirectory h outputDir (fs w1) of
                           Inl e \<Rightarrow> (failure e, w1)
                         | Inr fs2 \<Rightarrow>
                             (case writeFiles h (outputFiles vars) outputDir (w1\<lparr>fs := fs2\<rparr>) of
                                (Inl e, w3) \<Rightarrow> (failure e, w3)
                              | (Inr writtenPaths, w3) \<Rightarrow>
                                  (case patchPreviousPages outputDir (newlyCreatedPages vars)
                                          (fs w3) of
                                     (Some e, fs4) \<Rightarrow> (failure e, w3\<lparr>fs := fs4\<rparr>)
                                   | (None, fs4) \<Rightarrow>
                                       (Success writtenPaths (totalNewItems vars)
                                          (updatedFiles vars),
                                        w3\<lparr>fs := fs4\<rparr>))))
                      else (Success [] 0 0, w1)))))"

section \<open>A host: the UTC calendar\<close>

text \<open>
  A host to run the program on: its local time zone is UTC, \<open>new Date(text)\<close> reads the
  ISO format that \<open>toISOString\<close> writes, and paths are absolute and normalised, so that
  \<open>resolve\<close> joins with a slash (an empty part is ignored) and \<open>dirname\<close> drops the last
  part.
\<close>

definition civil :: "int \<Rightarrow> int \<times> int \<times> int" where
  \<comment> \<open>year, month from 1 and day of the month of a day number counted from 1970-01-01\<close>
  "civil days =
     (let z = days + 719468;
          era = z div 146097;
          doe = z - era * 146097;
          yoe = (doe - doe div 1460 + doe div 36524 - doe div 146096) div 365;
          doy = doe - (365 * yoe + yoe div 4 - yoe div 100);
          mp = (5 * doy + 2) div 153;
          d = doy - (153 * mp + 2) div 5 + 1;
          m = (if mp < 10 then mp + 3 else mp - 9);
          y = yoe + era * 400 + (if m \<le> 2 then 1 else 0)
      in (y, m, d))"

definition daysFromCivil :: "int \<Rightarrow> int \<Rightarrow> int \<Rightarrow> int" where
  "daysFromCivil y0 m d =
     (let y = (if m \<le> 2 then y0 - 1 else y0);
          era = y div 400;
          yoe = y - era * 400;
          doy = (153 * (if 2 < m then m - 3 else m + 9) + 2) div 5 + d - 1;
          doe = yoe * 365 + yoe div 4 - yoe div 100 + doy
      in era * 146097 + doe - 719468)"

definition pad :: "nat \<Rightarrow> int \<Rightarrow> string" where
  "pad n v = padStart n CHR ''0'' (decimal v)"

definition isoYear :: "int \<Rightarrow> string" where
  "isoYear y =
     (if 0 \<le> y \<and> y \<le> 9999 then pad 4 y
      else (if y < 0 then CHR ''-'' else CHR ''+'') # pad 6 \<bar>y\<bar>)"

definition utcISOString :: "int \<Rightarrow> string" where
  "utcISOString t =
     (let date = civil (t div 86400000);
          ms = t mod 86400000
      in isoYear (fst date) @ ''-'' @ pad 2 (fst (snd date)) @ ''-'' @ pad 2 (snd (snd date))
         @ ''T''
         @ pad 2 (ms div 3600000) @ '':'' @ pad 2 (ms div 60000 mod 60) @ '':''
         @ pad 2 (ms div 1000 mod 60) @ ''.'' @ pad 3 (ms mod 1000) @ ''Z'')"

definition number :: "string \<Rightarrow> int option" where
  "number s =
     (if s \<noteq> [] \<and> list_all isDigit s
      then Some (foldl (\<lambda>n c. 10 * n + int (digitVal c)) 0 s) else None)"

definition utcDateParse :: "string \<Rightarrow> int option" where
  \<comment> \<open>\<open>YYYY-MM-DDTHH:mm:ss.sssZ\<close>\<close>
  "utcDateParse s =
     (if length s = 24
         \<and> map (\<lambda>i. s ! i) [4, 7, 10, 13, 16, 19, 23] = ''--T::.Z''
      then
        do { y \<leftarrow> number (take 4 s);
             m \<leftarrow> number (take 2 (drop 5 s));
             d \<leftarrow> number (take 2 (drop 8 s));
             hh \<leftarrow> number (take 2 (drop 11 s));
             mm \<leftarrow> number (take 2 (drop 14 s));
             ss \<leftarrow> number (take 2 (drop 17 s));
             ms \<leftarrow> number (take 3 (drop 20 s));
             if 1 \<le> m \<and> m \<le> 12 \<and> 1 \<le> d \<and> d \<le> 31 \<and> hh < 24 \<and> mm < 60 \<and> ss < 60
             then Some (daysFromCivil y m d * 86400000
                        + (((hh * 60 + mm) * 60 + ss) * 1000 + ms))
             else None }
      else None)"

definition utcFullYear :: "int \<Rightarrow> int" where
  "utcFullYear t = fst (civil (t div 86400000))"

definition utcMonth :: "int \<Rightarrow> nat" where
  "utcMonth t = nat (fst (snd (civil (t div 86400000))) - 1)"

definition joinPath :: "string \<Rightarrow> string \<Rightarrow> string" where
  "joinPath dir name = (if name = [] then dir else dir @ ''/'' @ name)"

definition parentPath :: "string \<Rightarrow> string" where
  "parentPath p = rev (drop 1 (dropWhile (\<lambda>c. c \<noteq> CHR ''/'') (rev p)))"

definition utc_host :: host where
  "utc_host =
     \<lparr>getFullYear = utcFullYear, getMonth = utcMonth, toISOString = utcISOString,
      dateParse = utcDateParse, resolve = joinPath, dirname = parentPath\<rparr>"

definition emptyDisk :: filesystem where
  \<comment> \<open>a disk with the output directory only, where nothing fails\<close>
  "emptyDisk = \<lparr>files = [], dirs = [''/out''], fault = (\<lambda>op. None), journal = []\<rparr>"

definition isoFormat :: "int \<Rightarrow> string option" where
  \<comment> \<open>a date format that renders the ISO date\<close>
  "isoFormat t = Some (take 10 (utcISOString t))"

definition startWorld :: "filesystem \<Rightarrow> world" where
  \<comment> \<open>a new \<open>FeedToHtml\<close> on a disk\<close>
  "startWorld disk =
     \<lparr>fs = disk, writtenFiles = [], engine = newTemplateEngine isoFormat, ticks = 0\<rparr>"

section \<open>Properties of the grouping service\<close>

text \<open>
  C1. \<open>filterNewItems\<close> keeps, in input order, exactly the items that have a \<open>pubDate\<close> and
  whose link is not among the known links. The \<open>lastDate\<close> argument has no effect, and an
  item whose link is known is never in the result, whatever its time stamp or description.
\<close>

theorem filterNewItems_by_link_only:
  "filterNewItems items lastDate links
     = filter (\<lambda>i. pubDate i \<noteq> None \<and> link i \<notin> links) items
   \<and> filterNewItems items lastDate' links = filterNewItems items lastDate links
   \<and> (link x \<in> links \<longrightarrow> x \<notin> set (filterNewItems items lastDate links))"
proof -
  have sel: "(\<lambda>item. if pubDate item = None then False
                      else if link item \<in> links then False else True)
             = (\<lambda>i. pubDate i \<noteq> None \<and> link i \<notin> links)"
    by auto
  show ?thesis
    unfolding filterNewItems_def sel by simp
qed

definition entryX :: rss_item where
  "entryX = \<lparr>title = ''X'', description = ''first text'', link = ''http://example.com/x'',
             pubDate = Some 1733000000000, author = [], guid = [], categories = []\<rparr>"

definition entryY :: rss_item where
  "entryY = \<lparr>title = ''Y'', description = ''other'', link = ''http://example.com/y'',
             pubDate = Some 1733100000000, author = [], guid = [], categories = []\<rparr>"

definition entryNoDate :: rss_item where
  "entryNoDate = \<lparr>title = ''Z'', description = [], link = ''http://example.com/z'',
                  pubDate = None, author = [], guid = [], categories = []\<rparr>"

theorem filterNewItems_by_link_only_witness:
  "link (entryX\<lparr>description := ''edited'', pubDate := Some 1733200000000\<rparr>)
     \<in> {''http://example.com/x''}
   \<and> filterNewItems
        [entryX\<lparr>description := ''edited'', pubDate := Some 1733200000000\<rparr>, entryNoDate, entryY]
        (Some 0) {''http://example.com/x''}
       = [entryY]
   \<and> entryX\<lparr>description := ''edited'', pubDate := Some 1733200000000\<rparr>
       \<notin> set (filterNewItems
                [entryX\<lparr>description := ''edited'', pubDate := Some 1733200000000\<rparr>,
                 entryNoDate, entryY]
                (Some 0) {''http://example.com/x''})"
  using filterNewItems_by_link_only
    [of "[entryX\<lparr>description := ''edited'', pubDate := Some 1733200000000\<rparr>, entryNoDate, entryY]"
        "Some 0" "{''http://example.com/x''}" None
        "entryX\<lparr>description := ''edited'', pubDate := Some 1733200000000\<rparr>"]
  by (simp add: entryX_def entryY_def entryNoDate_def)

text \<open>
  C7. \<open>generateRelativePath\<close> is a function of its two keys alone. With the year of a key
  being its text before the first dash: equal years give the bare file name
  \<open>toKey.html\<close>, different years give \<open>../toYear/toKey.html\<close>; from \<open>2024-12\<close> to
  \<open>2025-01\<close> the path is \<open>../2025/2025-01.html\<close>.
\<close>

theorem generateRelativePath_rule:
  "(splitFirst CHR ''-'' fromKey = splitFirst CHR ''-'' toKey
      \<longrightarrow> generateRelativePath fromKey toKey = toKey @ ''.html'')
   \<and> (splitFirst CHR ''-'' fromKey \<noteq> splitFirst CHR ''-'' toKey
      \<longrightarrow> generateRelativePath fromKey toKey
            = ''../'' @ splitFirst CHR ''-'' toKey @ ''/'' @ toKey @ ''.html'')
   \<and> generateRelativePath ''2024-12'' ''2025-01'' = ''../2025/2025-01.html''"
  by (simp add: generateRelativePath_def splitFirst_def Let_def)

theorem generateRelativePath_rule_witness:
  "splitFirst CHR ''-'' ''2025-01'' = splitFirst CHR ''-'' ''2025-02''
   \<and> generateRelativePath ''2025-01'' ''2025-02'' = ''2025-02.html''
   \<and> splitFirst CHR ''-'' ''2024-12'' \<noteq> splitFirst CHR ''-'' ''2025-01''
   \<and> generateRelativePath ''2024-12'' ''2025-01'' = ''../2025/2025-01.html''"
  using generateRelativePath_rule [of "''2025-01''" "''2025-02''"]
    generateRelativePath_rule [of "''2024-12''" "''2025-01''"]
  by (simp add: splitFirst_def)

text \<open>
  The grouping in general. \<open>keyOf\<close> is the key of an item, none without a \<open>pubDate\<close>;
  \<open>collect\<close> is the first loop of \<open>groupItemsByMonth\<close>, which fills the \<open>Map\<close>.
\<close>

definition keyOf :: "host \<Rightarrow> rss_item \<Rightarrow> string option" where
  "keyOf h item = map_option (getYearMonthKey h) (pubDate item)"

definition collect :: "host \<Rightarrow> rss_item list \<Rightarrow> (string \<times> rss_item list) list" where
  "collect h items =
     foldl (\<lambda>groups item.
              case pubDate item of
                None \<Rightarrow> groups
              | Some d \<Rightarrow> map_push (getYearMonthKey h d) item groups)
           [] items"

lemma map_push_keys:
  "map fst (map_push k x g) = (if k \<in> fst ` set g then map fst g else map fst g @ [k])"
  by (induction g) force+

lemma map_of_map_push:
  "map_of (map_push k x g)
     = (map_of g)(k \<mapsto> (case map_of g k of None \<Rightarrow> [x] | Some xs \<Rightarrow> xs @ [x]))"
  by (induction g) (auto simp: fun_eq_iff)

lemma collect_snoc:
  "collect h (items @ [i])
     = (case pubDate i of None \<Rightarrow> collect h items
        | Some d \<Rightarrow> map_push (getYearMonthKey h d) i (collect h items))"
  unfolding collect_def by simp

lemma collect_distinct: "distinct (map fst (collect h items))"
proof (induction items rule: rev_induct)
  case Nil
  show ?case by (simp add: collect_def)
next
  case (snoc i items)
  then show ?case
    by (cases "pubDate i") (simp_all add: collect_snoc map_push_keys)
qed

lemma collect_map_of:
  "map_of (collect h items) k
     = (if \<exists>i \<in> set items. keyOf h i = Some k
        then Some (filter (\<lambda>i. keyOf h i = Some k) items) else None)"
proof (induction items rule: rev_induct)
  case Nil
  show ?case by (simp add: collect_def)
next
  case (snoc i items)
  show ?case
  proof (cases "pubDate i")
    case None
    then have "keyOf h i = None" by (simp add: keyOf_def)
    then show ?thesis using None snoc by (simp add: collect_snoc)
  next
    case (Some d)
    then have key: "keyOf h i = Some (getYearMonthKey h d)" by (simp add: keyOf_def)
    show ?thesis
    proof (cases "k = getYearMonthKey h d")
      case True
      show ?thesis
      proof (cases "\<exists>j \<in> set items. keyOf h j = Some k")
        case True
        then show ?thesis using Some key snoc \<open>k = getYearMonthKey h d\<close>
          by (simp add: collect_snoc map_of_map_push)
      next
        case False
        then have "filter (\<lambda>i. keyOf h i = Some k) items = []"
          by (simp add: filter_empty_conv)
        then show ?thesis using False Some key snoc \<open>k = getYearMonthKey h d\<close>
          by (simp add: collect_snoc map_of_map_push)
      qed
    next
      case False
      then show ?thesis using Some key snoc
        by (simp add: collect_snoc map_of_map_push)
    qed
  qed
qed

lemma localeCompare_eq: "localeCompare a b = 0 \<longleftrightarrow> a = b"
  by (induction a b rule: localeCompare.induct) auto

lemma localeCompare_total: "localeCompare a b \<le> 0 \<or> localeCompare b a \<le> 0"
proof (induction a b rule: localeCompare.induct)
  case (4 x xs y ys)
  have "x \<noteq> y \<Longrightarrow> (of_char x :: int) \<noteq> of_char y" by simp
  then show ?case using 4 by auto
qed auto

lemma localeCompare_trans:
  "localeCompare a b \<le> 0 \<Longrightarrow> localeCompare b c \<le> 0 \<Longrightarrow> localeCompare a c \<le> 0"
proof (induction a b arbitrary: c rule: localeCompare.induct)
  case 1
  then show ?case by simp
next
  case (2 y ys)
  then show ?case by (cases c) (auto split: if_splits)
next
  case (3 x xs)
  then show ?case by simp
next
  case (4 x xs y ys)
  then show ?case by (cases c) (auto split: if_splits)
qed

lemma js_sort_Nil: "js_sort cmp [] = []"
  by (simp add: js_sort_def)

lemma js_sort_Cons: "js_sort cmp (x # xs) = insort_cmp cmp x (js_sort cmp xs)"
  by (simp add: js_sort_def)

lemma set_insort_cmp: "set (insort_cmp cmp x ys) = insert x (set ys)"
  by (induction ys) auto

lemma set_js_sort: "set (js_sort cmp xs) = set xs"
  by (induction xs) (simp_all add: js_sort_Nil js_sort_Cons set_insort_cmp)

lemma distinct_insort_cmp:
  "distinct (map f (insort_cmp cmp x ys)) = distinct (map f (x # ys))"
  by (induction ys) (auto simp: set_insort_cmp)

lemma distinct_js_sort: "distinct (map f (js_sort cmp xs)) = distinct (map f xs)"
  by (induction xs) (simp_all add: js_sort_Nil js_sort_Cons distinct_insort_cmp set_js_sort)

lemma sorted_insort_cmp:
  assumes tot: "\<And>a b. cmp a b \<le> 0 \<or> cmp b a \<le> 0"
    and trans: "\<And>a b c. cmp a b \<le> 0 \<Longrightarrow> cmp b c \<le> 0 \<Longrightarrow> cmp a c \<le> (0::int)"
  shows "sorted_wrt (\<lambda>a b. cmp a b \<le> 0) ys
         \<Longrightarrow> sorted_wrt (\<lambda>a b. cmp a b \<le> 0) (insort_cmp cmp x ys)"
proof (induction ys)
  case Nil
  show ?case by simp
next
  case (Cons y ys)
  show ?case
  proof (cases "cmp x y \<le> 0")
    case True
    then have "\<forall>z \<in> set ys. cmp x z \<le> 0" using Cons.prems trans by auto
    then show ?thesis using True Cons.prems by simp
  next
    case False
    then have "cmp y x \<le> 0" using tot by blast
    then show ?thesis using False Cons by (simp add: set_insort_cmp)
  qed
qed

lemma sorted_js_sort:
  assumes tot: "\<And>a b. cmp a b \<le> 0 \<or> cmp b a \<le> 0"
    and trans: "\<And>a b c. cmp a b \<le> 0 \<Longrightarrow> cmp b c \<le> 0 \<Longrightarrow> cmp a c \<le> (0::int)"
  shows "sorted_wrt (\<lambda>a b. cmp a b \<le> 0) (js_sort cmp xs)"
proof (induction xs)
  case Nil
  show ?case by (simp add: js_sort_Nil)
next
  case (Cons x xs)
  show ?case
    unfolding js_sort_Cons by (rule sorted_insort_cmp [OF tot trans Cons])
qed

lemma insort_byDate: "insort_cmp byDateDescending x ys = insort_key (\<lambda>i. - pubTime i) x ys"
  by (induction ys) (simp_all add: byDateDescending_def)

lemma js_sort_byDate: "js_sort byDateDescending xs = sort_key (\<lambda>i. - pubTime i) xs"
  by (induction xs) (simp_all add: js_sort_Nil js_sort_Cons sort_key_def insort_byDate)


lemma sorted_wrt_distinct:
  "sorted_wrt P xs \<Longrightarrow> distinct (map f xs) \<Longrightarrow> sorted_wrt (\<lambda>a b. P a b \<and> f a \<noteq> f b) xs"
  by (induction xs) (auto simp: image_iff)

lemma groupItemsByMonth_collect:
  "groupItemsByMonth h items
     = js_sort (\<lambda>a b. localeCompare (fst b) (fst a))
         (map (\<lambda>(key, groupItems). (key, js_sort byDateDescending groupItems)) (collect h items))"
  by (simp add: groupItemsByMonth_def collect_def)

text \<open>
  The buckets come in strictly descending order of their keys; the keys are those of the
  items that have a \<open>pubDate\<close>, and the items without one are in no bucket; a bucket holds
  the items of its key, newest first, the items of equal time in their input order
  (\<open>sort_key\<close> is the stable insertion sort of the library).
\<close>

lemma groupItemsByMonth_structure:
  "sorted_wrt (\<lambda>a b. localeCompare (fst b) (fst a) < 0) (groupItemsByMonth h items)"
  "fst ` set (groupItemsByMonth h items) = {k. \<exists>i \<in> set items. keyOf h i = Some k}"
  "(k, xs) \<in> set (groupItemsByMonth h items) \<Longrightarrow>
     xs = sort_key (\<lambda>i. - pubTime i) (filter (\<lambda>i. keyOf h i = Some k) items)"
proof -
  let ?cmp = "\<lambda>a b :: string \<times> rss_item list. localeCompare (fst b) (fst a)"
  let ?f = "\<lambda>(key, groupItems). (key, js_sort byDateDescending groupItems)"
  let ?G = "groupItemsByMonth h items"
  have fst_f: "map fst (map ?f (collect h items)) = map fst (collect h items)"
    by (simp add: case_prod_unfold comp_def)
  have dist: "distinct (map fst ?G)"
    unfolding groupItemsByMonth_collect distinct_js_sort fst_f by (rule collect_distinct)
  have "sorted_wrt (\<lambda>a b. ?cmp a b \<le> 0) ?G"
    unfolding groupItemsByMonth_collect
  proof (rule sorted_js_sort)
    show "?cmp a b \<le> 0 \<or> ?cmp b a \<le> 0" for a b
      by (rule localeCompare_total)
    show "?cmp a b \<le> 0 \<Longrightarrow> ?cmp b c \<le> 0 \<Longrightarrow> ?cmp a c \<le> 0" for a b c
      by (rule localeCompare_trans)
  qed
  then have "sorted_wrt (\<lambda>a b. ?cmp a b \<le> 0 \<and> fst a \<noteq> fst b) ?G"
    using dist by (rule sorted_wrt_distinct)
  then show "sorted_wrt (\<lambda>a b. localeCompare (fst b) (fst a) < 0) ?G"
    by (rule sorted_wrt_mono_rel [rotated])
       (metis localeCompare_eq order_le_less)
  have "fst ` set ?G = fst ` set (collect h items)"
    unfolding groupItemsByMonth_collect set_js_sort
    using fst_f by (metis list.set_map)
  also have "\<dots> = dom (map_of (collect h items))"
    by (simp add: dom_map_of_conv_image_fst)
  also have "\<dots> = {k. \<exists>i \<in> set items. keyOf h i = Some k}"
    by (auto simp: collect_map_of dom_def)
  finally show "fst ` set ?G = {k. \<exists>i \<in> set items. keyOf h i = Some k}" .
  assume "(k, xs) \<in> set ?G"
  then obtain ys where ys: "(k, ys) \<in> set (collect h items)"
    and xs: "xs = js_sort byDateDescending ys"
    unfolding groupItemsByMonth_collect set_js_sort by auto
  from ys have "map_of (collect h items) k = Some ys"
    using collect_distinct by simp
  then have "ys = filter (\<lambda>i. keyOf h i = Some k) items"
    by (simp add: collect_map_of split: if_splits)
  then show "xs = sort_key (\<lambda>i. - pubTime i) (filter (\<lambda>i. keyOf h i = Some k) items)"
    using xs by (simp add: js_sort_byDate)
qed

text \<open>
  For a year from 1000 to 9999 the key is four digits, a dash and two digits.
\<close>

lemma decimal_four_digits:
  assumes "1000 \<le> y" "y \<le> 9999"
  shows "decimal y = [digitChar (y div 1000), digitChar (y div 100), digitChar (y div 10),
                      digitChar y]"
proof -
  have n: "\<not> y < 10" "\<not> y div 10 < 10" "\<not> y div 100 < 10" "y div 1000 < 10"
    using assms by simp_all
  have e: "y div 10 div 10 = y div 100" "y div 100 div 10 = y div 1000"
    by (simp_all add: zdiv_zmult2_eq)
  have a: "decimal y = decimal (y div 10) @ [digitChar y]"
    using n by (subst decimal.simps) simp
  have b: "decimal (y div 10) = decimal (y div 100) @ [digitChar (y div 10)]"
    using n e by (subst decimal.simps) simp
  have c: "decimal (y div 100) = decimal (y div 1000) @ [digitChar (y div 100)]"
    using n e by (subst decimal.simps) simp
  have d: "decimal (y div 1000) = [digitChar (y div 1000)]"
    using n by (subst decimal.simps) simp
  show ?thesis by (simp add: a b c d)
qed

lemma decimal_month:
  assumes "1 \<le> m" "m \<le> 12"
  shows "padStart 2 CHR ''0'' (decimal m) = [digitChar (m div 10), digitChar m]"
proof (cases "m < 10")
  case True
  then have "decimal m = [digitChar m]"
    by (subst decimal.simps) simp
  moreover have "m div 10 = 0" using True assms by simp
  ultimately show ?thesis
    by (simp add: padStart_def digitChar_def)
next
  case False
  then have "decimal m = decimal (m div 10) @ [digitChar m]"
    by (subst decimal.simps) simp
  moreover have "m div 10 < 10" using assms by simp
  then have "decimal (m div 10) = [digitChar (m div 10)]"
    by (subst decimal.simps) simp
  ultimately show ?thesis by (simp add: padStart_def)
qed

lemma getYearMonthKey_four_digit_year:
  assumes "1000 \<le> getFullYear h t" "getFullYear h t \<le> 9999" "getMonth h t < 12"
  shows "getYearMonthKey h t
         = [digitChar (getFullYear h t div 1000), digitChar (getFullYear h t div 100),
            digitChar (getFullYear h t div 10), digitChar (getFullYear h t), CHR ''-'',
            digitChar ((int (getMonth h t) + 1) div 10), digitChar (int (getMonth h t) + 1)]"
proof -
  have "padStart 2 CHR ''0'' (string_of_nat (getMonth h t + 1))
        = [digitChar ((int (getMonth h t) + 1) div 10), digitChar (int (getMonth h t) + 1)]"
    using decimal_month [of "int (getMonth h t) + 1"] assms(3)
    by (simp add: string_of_nat_def add.commute)
  then show ?thesis
    using assms(1,2) by (simp add: getYearMonthKey_def Let_def string_of_int_def decimal_four_digits)
qed

text \<open>
  C6 at a date of the year 999: the year of the key is written without padding, with three
  digits, where \<open>getYearMonthKey\<close> is documented to return a \<open>YYYY-MM\<close> string.
\<close>

theorem groupItemsByMonth_year_999:
  "map fst (groupItemsByMonth utc_host
     [\<lparr>title = ''Old'', description = [], link = ''http://a/o'',
       pubDate = Some (- 30627504000000), author = [], guid = [], categories = []\<rparr>])
   = [''999-06'']"
  by code_simp

section \<open>Properties of the template engine\<close>

definition entryB :: rss_item where
  "entryB = \<lparr>title = ''B'', description = ''b'', link = ''http://a/b'',
             pubDate = Some 1736000000000, author = [], guid = [], categories = []\<rparr>"

definition feedB :: rss_feed where
  "feedB = \<lparr>feed_title = ''F'', feed_description = ''d'', feed_link = [], feed_language = [],
            feed_items = [entryB]\<rparr>"

definition blockTemplate :: html_template where
  "blockTemplate = \<lparr>content = ''{{FEED_TITLE}}{{#ITEMS}}<p>{{ITEM_TITLE}}</p>{{/ITEMS}}''\<rparr>"

definition bareTemplate :: html_template where
  "bareTemplate = \<lparr>content = ''{{FEED_TITLE}}{{ITEMS}}''\<rparr>"


definition plainOptions :: gen_options where
  "plainOptions = \<lparr>opt_yearMonth = [], opt_pageItems = None, opt_adjacentMonths = None,
                   opt_generateRelativePath = generateRelativePath\<rparr>"




text \<open>
  C10. \<open>generateHTML\<close> depends on the engine it runs on: after a template with an
  \<open>{{#ITEMS}}\<close> block, the engine keeps the block as its item template, and the same call
  with a bare \<open>{{ITEMS}}\<close> template renders another page than on a new engine.
\<close>

theorem generateHTML_depends_on_engine:
  "itemTemplate (snd (generateHTML utc_host 0 0 (newTemplateEngine isoFormat) feedB blockTemplate
                        plainOptions))
     = ''<p>{{ITEM_TITLE}}</p>''
   \<and> fst (generateHTML utc_host 0 0
             (snd (generateHTML utc_host 0 0 (newTemplateEngine isoFormat) feedB blockTemplate
                     plainOptions))
             feedB bareTemplate plainOptions)
       = ''F<p>B</p>''
   \<and> fst (generateHTML utc_host 0 0 (newTemplateEngine isoFormat) feedB bareTemplate plainOptions)
       \<noteq> ''F<p>B</p>''"
  by code_simp

section \<open>Properties of the merge\<close>

definition entryD :: rss_item where
  "entryD = \<lparr>title = ''D'', description = ''D costs $10'', link = ''http://a/d'',
             pubDate = Some 1736100000000, author = [], guid = [], categories = []\<rparr>"

definition feedD :: rss_feed where
  "feedD = \<lparr>feed_title = ''F'', feed_description = ''d'', feed_link = [], feed_language = [],
            feed_items = [entryD]\<rparr>"

definition textTemplate :: html_template where
  "textTemplate =
     \<lparr>content = ''<main>{{#ITEMS}}<article>{{ITEM_DESCRIPTION}}</article>{{/ITEMS}}</main>''\<rparr>"

text \<open>
  The order of a merge, on entries without dollar signs: the new entries D and C come
  before the entries B and A of the page.
\<close>

lemma mergeHtmlContent_order:
  "mainContent
     (mergeHtmlContent utc_host 1736900000000
        (''<main><article>B</article>'' @ newline @ newline @ ''<article>A</article></main>'')
        (''<main><article>D</article>'' @ newline @ newline @ ''<article>C</article></main>'') [])
   = ''<article>D</article>'' @ newline @ newline @ ''<article>C</article>'' @ newline @ newline
     @ ''<article>B</article>'' @ newline @ newline @ ''<article>A</article>''"
  by code_simp

text \<open>
  C3 at an entry whose text has a dollar sign followed by digits. The page rendered for
  the new entry has the text as it is; the merge makes its main region part of the
  replacement template of \<open>String.prototype.replace\<close>, so \<open>$10\<close> is read as the first
  capture group, the opening \<open>main\<close> tag, and a zero.
\<close>

theorem mergeHtmlContent_dollar_in_entry:
  "fst (generateHTML utc_host 0 0 (newTemplateEngine isoFormat) feedD textTemplate plainOptions)
     = ''<main><article>D costs $10</article></main>''
   \<and> mergeHtmlContent utc_host 1736900000000
       ''<main><article>B</article></main>''
       ''<main><article>D costs $10</article></main>'' [entryD]
     = ''<main>'' @ newline @ ''    <article>D costs <main>0</article>'' @ newline @ newline
       @ ''<article>B</article>'' @ newline @ ''    </main>''"
  by code_simp

section \<open>Properties of the file writer\<close>

lemma writes_append: "writes (xs @ ys) = writes xs @ writes ys"
  by (induction xs rule: writes.induct) auto

lemma writeFileSync_Inr:
  "writeFileSync fsys p text = Inr fsys' \<Longrightarrow>
     fault fsys' = fault fsys \<and> dirs fsys' = dirs fsys
     \<and> files fsys' = AList.update p text (files fsys)
     \<and> journal fsys' = journal fsys @ [Wrote p]"
  by (auto simp: writeFileSync_def split: option.splits)

lemma ensureDirectoryExists_Inr:
  "ensureDirectoryExists d fsys = Inr fsys' \<Longrightarrow>
     fault fsys' = fault fsys \<and> files fsys' = files fsys
     \<and> writes (journal fsys') = writes (journal fsys)"
  by (auto simp: ensureDirectoryExists_def mkdirSync_def writes_append
      split: if_splits sum.splits option.splits)

lemma writeFile_Inr:
  assumes "writeFile h f dir w = (Inr p, w')"
  shows "p = resolve h dir (filename f)"
    and "fault (fs w') = fault (fs w)"
    and "writes (journal (fs w')) = writes (journal (fs w)) @ [p]"
    and "map_of (files (fs w')) p \<noteq> None"
    and "map_of (files (fs w)) q \<noteq> None \<Longrightarrow> map_of (files (fs w')) q \<noteq> None"
  using assms
  by (auto simp: writeFile_def Let_def writes_append update_conv'
      split: sum.splits dest!: ensureDirectoryExists_Inr writeFileSync_Inr)

lemma writeFile_Inl:
  assumes "writeFile h f dir w = (Inl e, w')"
  shows "fault (fs w') = fault (fs w)"
    and "writes (journal (fs w')) = writes (journal (fs w))"
    and "files (fs w') = files (fs w)"
  using assms
  by (auto simp: writeFile_def Let_def
      split: sum.splits dest!: ensureDirectoryExists_Inr)

lemma unlinkSync_Inr:
  "unlinkSync fsys p = Inr fsys' \<Longrightarrow>
     fault fsys' = fault fsys \<and> files fsys' = AList.delete p (files fsys)
     \<and> writes (journal fsys') = writes (journal fsys)"
  by (auto simp: unlinkSync_def writes_append split: option.splits)

lemma unlinkSync_Inl:
  "unlinkSync fsys p = Inl e \<Longrightarrow> fault fsys (OpUnlink p) = None \<Longrightarrow> map_of (files fsys) p = None"
  by (auto simp: unlinkSync_def split: option.splits)

lemma cleanupFiles_keeps:
  "fault (cleanupFiles ps fsys) = fault fsys
   \<and> writes (journal (cleanupFiles ps fsys)) = writes (journal fsys)
   \<and> (map_of (files fsys) q = None \<longrightarrow> map_of (files (cleanupFiles ps fsys)) q = None)"
proof (induction ps arbitrary: fsys)
  case Nil
  show ?case by simp
next
  case (Cons p ps)
  show ?case
  proof (cases "unlinkSync fsys p")
    case (Inl e)
    then show ?thesis using Cons.IH [of fsys] by simp
  next
    case (Inr fsys')
    from unlinkSync_Inr [OF Inr] have
      f: "fault fsys' = fault fsys" and d: "files fsys' = AList.delete p (files fsys)"
      and j: "writes (journal fsys') = writes (journal fsys)" by auto
    have "map_of (files fsys) q = None \<Longrightarrow> map_of (files fsys') q = None"
      by (simp add: d delete_conv')
    then show ?thesis using Cons.IH [of fsys'] Inr f j by simp
  qed
qed

lemma cleanupFiles_deletes:
  "p \<in> set ps \<Longrightarrow> fault fsys (OpUnlink p) = None
     \<Longrightarrow> map_of (files (cleanupFiles ps fsys)) p = None"
proof (induction ps arbitrary: fsys)
  case Nil
  then show ?case by simp
next
  case (Cons a ps)
  show ?case
  proof (cases "unlinkSync fsys a")
    case (Inl e)
    show ?thesis
    proof (cases "p = a")
      case True
      with Inl Cons.prems have "map_of (files fsys) p = None"
        by (auto dest: unlinkSync_Inl)
      then show ?thesis using cleanupFiles_keeps [of ps fsys p] Inl by simp
    next
      case False
      then show ?thesis using Cons Inl by simp
    qed
  next
    case (Inr fsys')
    from unlinkSync_Inr [OF Inr] have
      f: "fault fsys' = fault fsys" and d: "files fsys' = AList.delete a (files fsys)" by auto
    show ?thesis
    proof (cases "p = a")
      case True
      have "map_of (files fsys') p = None" by (simp add: d True delete_conv')
      then show ?thesis using cleanupFiles_keeps [of ps fsys' p] Inr by simp
    next
      case False
      then show ?thesis using Cons Inr f by simp
    qed
  qed
qed

lemma writeFilesLoop_outcome:
  assumes "writeFilesLoop h dir outs written w = (r, w')"
    and "set written \<subseteq> set (drop n (writes (journal (fs w))))"
    and "set (drop n (writes (journal (fs w)))) \<subseteq> set written"
    and "n \<le> length (writes (journal (fs w)))"
    and "list_all (\<lambda>p. map_of (files (fs w)) p \<noteq> None) written"
  shows "case r of
      Inr paths \<Rightarrow>
        paths = written @ map (\<lambda>f. resolve h dir (filename f)) outs
        \<and> writes (journal (fs w'))
            = writes (journal (fs w)) @ map (\<lambda>f. resolve h dir (filename f)) outs
        \<and> list_all (\<lambda>p. map_of (files (fs w')) p \<noteq> None) paths
    | Inl e \<Rightarrow>
        list_all (\<lambda>p. fault (fs w) (OpUnlink p) = None \<longrightarrow> map_of (files (fs w')) p = None)
                 (drop n (writes (journal (fs w'))))"
  using assms
proof (induction outs arbitrary: written w)
  case Nil
  then show ?case by auto
next
  case (Cons f outs)
  obtain r1 w1 where wf: "writeFile h f dir w = (r1, w1)" by (cases "writeFile h f dir w")
  show ?case
  proof (cases r1)
    case (Inl e)
    with wf Cons.prems(1) have r: "r = Inl e" and w': "w' = w1\<lparr>fs := cleanupFiles written (fs w1)\<rparr>"
      by auto
    from writeFile_Inl [OF wf [unfolded Inl]] have
      f1: "fault (fs w1) = fault (fs w)" and j1: "writes (journal (fs w1)) = writes (journal (fs w))"
      by auto
    have j': "writes (journal (fs w')) = writes (journal (fs w))"
      using cleanupFiles_keeps [of written "fs w1"] j1 w' by simp
    have "\<And>p. p \<in> set (drop n (writes (journal (fs w)))) \<Longrightarrow> fault (fs w) (OpUnlink p) = None
            \<Longrightarrow> map_of (files (fs w')) p = None"
    proof -
      fix p assume "p \<in> set (drop n (writes (journal (fs w))))" "fault (fs w) (OpUnlink p) = None"
      then have "p \<in> set written" "fault (fs w1) (OpUnlink p) = None"
        using Cons.prems(3) f1 by auto
      then show "map_of (files (fs w')) p = None"
        using cleanupFiles_deletes [of p written "fs w1"] w' by simp
    qed
    then show ?thesis using r j' by (auto simp: list_all_iff)
  next
    case (Inr p)
    with wf Cons.prems(1) have
      loop: "writeFilesLoop h dir outs (written @ [p]) w1 = (r, w')" by simp
    note wfp = writeFile_Inr [OF wf [unfolded Inr]]
    have a: "set (written @ [p]) \<subseteq> set (drop n (writes (journal (fs w1))))"
      using Cons.prems(2,4) wfp(3) by auto
    have b: "set (drop n (writes (journal (fs w1)))) \<subseteq> set (written @ [p])"
      using Cons.prems(3,4) wfp(3) by auto
    have c: "n \<le> length (writes (journal (fs w1)))"
      using Cons.prems(4) wfp(3) by simp
    have d: "list_all (\<lambda>p. map_of (files (fs w1)) p \<noteq> None) (written @ [p])"
      using Cons.prems(5) wfp(4) wfp(5) by (auto simp: list_all_iff)
    from Cons.IH [OF loop a b c d] show ?thesis
      using wfp(1) wfp(2) wfp(3) by (cases r) auto
  qed
qed

definition twoFiles :: "output_file list" where
  "twoFiles =
     [\<lparr>filename = ''2025/2025-01.html'', file_content = ''<p>B</p>'', itemCount = 1,
       pageNumber = 1\<rparr>,
      \<lparr>filename = ''2024/2024-12.html'', file_content = ''<p>A</p>'', itemCount = 1,
       pageNumber = 1\<rparr>]"

definition fullDisk :: filesystem where
  \<comment> \<open>the second file of the batch cannot be written\<close>
  "fullDisk =
     emptyDisk\<lparr>fault := (\<lambda>op. if op = OpWrite ''/out/2024/2024-12.html'' then Some ENOSPC
                              else None)\<rparr>"

definition lockedDisk :: filesystem where
  \<comment> \<open>and the first file cannot be deleted\<close>
  "lockedDisk =
     emptyDisk\<lparr>fault := (\<lambda>op. if op = OpWrite ''/out/2024/2024-12.html'' then Some ENOSPC
                              else if op = OpUnlink ''/out/2025/2025-01.html'' then Some EACCES
                              else None)\<rparr>"

text \<open>
  C9, as the code has it. A batch that succeeds writes every file once, in input order,
  returns the paths in that order, and every file is on disk. When a write fails, the files
  written in the batch before it are deleted where the deletion succeeds; a deletion that
  fails is skipped, and that file stays.
\<close>

theorem writeFiles_all_or_rollback:
  assumes "writeFiles h outs dir w = (r, w')"
  shows "case r of
      Inr paths \<Rightarrow>
        paths = map (\<lambda>f. resolve h dir (filename f)) outs
        \<and> writes (journal (fs w')) = writes (journal (fs w)) @ paths
        \<and> list_all (\<lambda>p. map_of (files (fs w')) p \<noteq> None) paths
    | Inl e \<Rightarrow>
        list_all (\<lambda>p. fault (fs w) (OpUnlink p) = None \<longrightarrow> map_of (files (fs w')) p = None)
                 (drop (length (writes (journal (fs w)))) (writes (journal (fs w'))))"
  using writeFilesLoop_outcome [of h dir outs "[]" w r w' "length (writes (journal (fs w)))"] assms
  by (cases r) (auto simp: writeFiles_def)
theorem writeFiles_all_or_rollback_witness:
  "fst (writeFiles utc_host twoFiles ''/out'' (startWorld fullDisk))
     = Inl (Error ''FILESYSTEM Disk full: cannot write 2024/2024-12.html'')
   \<and> fault (fs (startWorld fullDisk)) (OpUnlink ''/out/2025/2025-01.html'') = None
   \<and> map_of (files (fs (snd (writeFiles utc_host twoFiles ''/out'' (startWorld fullDisk)))))
         ''/out/2025/2025-01.html'' = None"
proof -
  let ?run = "writeFiles utc_host twoFiles ''/out'' (startWorld fullDisk)"
  have r: "fst ?run = Inl (Error ''FILESYSTEM Disk full: cannot write 2024/2024-12.html'')"
    by code_simp
  have d: "drop (length (writes (journal (fs (startWorld fullDisk)))))
             (writes (journal (fs (snd ?run)))) = [''/out/2025/2025-01.html'']"
    by code_simp
  have f: "fault (fs (startWorld fullDisk)) (OpUnlink ''/out/2025/2025-01.html'') = None"
    by code_simp
  have "?run = (fst ?run, snd ?run)" by simp
  from writeFiles_all_or_rollback [OF this] show ?thesis
    using r d f by simp
qed

text \<open>
  C9 as stated fails: the first file of the batch is written, the second fails, the first
  cannot be deleted, and it is still on disk when the error is returned.
\<close>

theorem writeFiles_rollback_incomplete:
  "fst (writeFiles utc_host twoFiles ''/out'' (startWorld lockedDisk))
     = Inl (Error ''FILESYSTEM Disk full: cannot write 2024/2024-12.html'')
   \<and> map_of (files (fs (snd (writeFiles utc_host twoFiles ''/out'' (startWorld lockedDisk)))))
         ''/out/2025/2025-01.html'' = Some ''<p>B</p>''"
  by code_simp

section \<open>Properties of the navigation patch\<close>

lemma startsWith_iff: "startsWith s p = (take (length p) s = p)"
  by (induction s p rule: startsWith.induct) auto

lemma startsWith_append [simp]: "startsWith (p @ s) p"
  by (simp add: startsWith_iff)

lemma GetSubstitution_no_dollar:
  "CHR ''$'' \<notin> set rep \<Longrightarrow> GetSubstitution m b a caps rep = rep"
  by (induction m b a caps rep rule: GetSubstitution.induct) auto

lemma regex_search_Some:
  "regex_search m s = Some (i, n, caps) \<Longrightarrow> i \<le> length s \<and> m (drop i s) = Some (n, caps)"
proof (induction s arbitrary: i)
  case Nil
  then show ?case by (auto split: option.splits)
next
  case (Cons c cs)
  show ?case
  proof (cases "m (c # cs)")
    case None
    with Cons.prems obtain j where j: "regex_search m cs = Some (j, n, caps)" and i: "i = Suc j"
      by (auto split: option.splits)
    from Cons.IH [OF j] i show ?thesis by simp
  next
    case (Some a)
    with Cons.prems show ?thesis by (cases a) auto
  qed
qed

lemma regex_search_finds:
  "i \<le> length s \<Longrightarrow> m (drop i s) \<noteq> None \<Longrightarrow> regex_search m s \<noteq> None"
proof (induction s arbitrary: i)
  case Nil
  then show ?case by (auto split: option.splits)
next
  case (Cons c cs)
  show ?case
  proof (cases i)
    case 0
    with Cons.prems show ?thesis by (auto split: option.splits)
  next
    case (Suc j)
    with Cons.prems have "regex_search m cs \<noteq> None" using Cons.IH [of j] by simp
    then show ?thesis by (auto split: option.splits)
  qed
qed

lemma regex_search_litRegex:
  "regex_search (litRegex p) s = map_option (\<lambda>i. (i, length p, [])) (indexOf s p)"
proof (induction s)
  case Nil
  show ?case by (cases p) (auto simp: litRegex_def)
next
  case (Cons c cs)
  then show ?case
    by (auto simp: litRegex_def option.map_comp comp_def split: option.splits)
qed

lemma indexOf_Some:
  "indexOf s p = Some i \<Longrightarrow> i \<le> length s \<and> take (length p) (drop i s) = p"
proof (induction s arbitrary: i)
  case Nil
  then show ?case by (auto split: if_splits)
next
  case (Cons c cs)
  then show ?case
    by (auto simp: startsWith_iff split: if_splits)
qed

lemma lastFrom_exists:
  "1 \<le> t \<Longrightarrow> t \<le> n \<Longrightarrow> f (drop t r) \<noteq> None \<Longrightarrow> lastFrom f r n \<noteq> None"
proof (induction n)
  case 0
  then show ?case by simp
next
  case (Suc n)
  show ?case
  proof (cases "t = Suc n")
    case True
    with Suc.prems show ?thesis by (auto split: option.splits)
  next
    case False
    with Suc have "lastFrom f r n \<noteq> None" by simp
    then show ?thesis by (auto split: option.splits)
  qed
qed

lemma classNextMonth_link:
  \<open>classNextMonth (''class="next-month">'' @ rest) = Some rest\<close>
  by (simp add: classNextMonth_def lit_def many_def includes_str_def)

lemma nextLinkRegex_link:
  assumes "CHR ''>'' \<notin> set path"
  shows \<open>nextLinkRegex (''<a href="'' @ path @ ''" class="next-month">'' @ rest) \<noteq> None\<close>
proof -
  define A where \<open>A = '' href="'' @ path @ ''" ''\<close>
  define B where \<open>B = ''class="next-month">'' @ rest\<close>
  have s: \<open>''<a href="'' @ path @ ''" class="next-month">'' @ rest = ''<a'' @ A @ B\<close>
    by (simp add: A_def B_def)
  have noGt: "\<forall>c \<in> set A. c \<noteq> CHR ''>''"
    using assms by (auto simp: A_def)
  have tw: "takeWhile (\<lambda>c. c \<noteq> CHR ''>'') (A @ B) = A @ takeWhile (\<lambda>c. c \<noteq> CHR ''>'') B"
    using noGt by (simp add: takeWhile_append2)
  have len: "1 \<le> length A" "length A \<le> length (takeWhile (\<lambda>c. c \<noteq> CHR ''>'') (A @ B))"
    by (simp_all add: tw) (simp add: A_def)
  have "classNextMonth B = Some rest"
    unfolding B_def by (rule classNextMonth_link)
  then have cls: "classNextMonth (drop (length A) (A @ B)) \<noteq> None"
    by simp
  from lastFrom_exists [where f = classNextMonth and r = "A @ B", OF len cls]
  obtain r' where r': "lastFrom classNextMonth (A @ B)
      (length (takeWhile (\<lambda>c. c \<noteq> CHR ''>'') (A @ B))) = Some r'"
    by auto
  have "lit ''<a'' (''<a'' @ A @ B) = Some (A @ B)"
    by (simp add: lit_def)
  then show ?thesis
    unfolding s nextLinkRegex_def using r' by simp
qed

lemma set_generateRelativePath:
  "set (generateRelativePath f t) \<subseteq> set t \<union> set ''./html''"
  using set_takeWhileD [of _ "\<lambda>c. c \<noteq> CHR ''-''" t]
  by (auto simp: generateRelativePath_def splitFirst_def Let_def)

definition nextLinkText :: "string \<Rightarrow> string \<Rightarrow> string" where
  \<open>nextLinkText nextPath nextYearMonth =
     ''<a href="'' @ nextPath @ ''" class="next-month">&laquo; '' @ nextYearMonth @ ''</a>''\<close>

lemma updateNextLink_replaced:
  assumes "CHR ''$'' \<notin> set nxt" and "\<not> regex_test nextLinkRegex html"
    and "indexOf html disabledNextSpan = Some i"
  shows "updateNextLink html nxt generateRelativePath cur
         = take i html @ nextLinkText (generateRelativePath cur nxt) nxt
           @ drop (i + length disabledNextSpan) html"
proof -
  have "CHR ''$'' \<notin> set (generateRelativePath cur nxt)"
    using set_generateRelativePath [of cur nxt] assms(1) by auto
  then have nd: "CHR ''$'' \<notin> set (nextLinkText (generateRelativePath cur nxt) nxt)"
    using assms(1) by (auto simp: nextLinkText_def)
  show ?thesis
    using assms(2,3) GetSubstitution_no_dollar [OF nd]
    by (simp add: updateNextLink_def Let_def regex_test_def disabledNextPattern_def
        regex_search_litRegex js_replace_def nextLinkText_def)
qed

text \<open>
  The text of a year-month key is made of digits and dashes: no key that
  \<open>getYearMonthKey\<close> makes has a dollar sign or a \<open>>\<close>. The run passes such keys only to
  \<open>updateNextLink\<close>.
\<close>

lemma digitChar_plain: "digitChar i \<noteq> CHR ''$'' \<and> digitChar i \<noteq> CHR ''>''"
proof -
  have "nat (i mod 10) < length ''0123456789''" by simp
  then have "digitChar i \<in> set ''0123456789''"
    unfolding digitChar_def by (rule nth_mem)
  then show ?thesis by auto
qed

lemma decimal_plain: "CHR ''$'' \<notin> set (decimal i) \<and> CHR ''>'' \<notin> set (decimal i)"
proof (induction i rule: decimal.induct)
  case (1 i)
  show ?case
  proof (cases "i < 10")
    case True
    then have "decimal i = [digitChar i]" by (subst decimal.simps) simp
    then show ?thesis using digitChar_plain [of i] by auto
  next
    case False
    then have "decimal i = decimal (i div 10) @ [digitChar i]" by (subst decimal.simps) simp
    then show ?thesis using digitChar_plain [of i] 1 [OF False] by auto
  qed
qed

lemma getYearMonthKey_plain:
  "CHR ''$'' \<notin> set (getYearMonthKey h t) \<and> CHR ''>'' \<notin> set (getYearMonthKey h t)"
  by (simp add: getYearMonthKey_def Let_def string_of_int_def string_of_nat_def padStart_def
      decimal_plain)

text \<open>
  C8, for a next month in the documented \<open>YYYY-MM\<close> format: a text with no dollar sign and
  no \<open>>\<close>, as every year-month key is. A page with an active next-month link is returned
  as it is; otherwise the first disabled placeholder, if there is one, is replaced by the
  link whose \<open>href\<close> is the relative path; a page with neither is returned as it is; and a
  second call changes nothing. \<open>updateNextLink\<close> has no failing branch.
\<close>

theorem updateNextLink_idempotent:
  assumes "CHR ''$'' \<notin> set nxt" and "CHR ''>'' \<notin> set nxt"
  shows "(regex_test nextLinkRegex html
            \<longrightarrow> updateNextLink html nxt generateRelativePath cur = html)
       \<and> (\<not> regex_test nextLinkRegex html \<longrightarrow>
            (case indexOf html disabledNextSpan of
               None \<Rightarrow> updateNextLink html nxt generateRelativePath cur = html
             | Some i \<Rightarrow>
                 updateNextLink html nxt generateRelativePath cur
                 = take i html @ nextLinkText (generateRelativePath cur nxt) nxt
                   @ drop (i + length disabledNextSpan) html))
       \<and> updateNextLink (updateNextLink html nxt generateRelativePath cur) nxt
            generateRelativePath cur
          = updateNextLink html nxt generateRelativePath cur"
proof -
  have a: "regex_test nextLinkRegex html
             \<Longrightarrow> updateNextLink html nxt generateRelativePath cur = html"
    by (simp add: updateNextLink_def Let_def)
  have b: "indexOf html disabledNextSpan = None
             \<Longrightarrow> updateNextLink html nxt generateRelativePath cur = html"
    by (simp add: updateNextLink_def Let_def regex_test_def disabledNextPattern_def
        regex_search_litRegex)
  have fixed: "regex_test nextLinkRegex page
             \<Longrightarrow> updateNextLink page nxt generateRelativePath cur = page" for page
    by (simp add: updateNextLink_def Let_def)
  have c: "updateNextLink (updateNextLink html nxt generateRelativePath cur) nxt
             generateRelativePath cur
           = updateNextLink html nxt generateRelativePath cur"
  proof (cases "regex_test nextLinkRegex html")
    case True
    then show ?thesis by (simp add: a)
  next
    case False
    show ?thesis
    proof (cases "indexOf html disabledNextSpan")
      case None
      then show ?thesis by (simp add: b)
    next
      case (Some i)
      let ?path = "generateRelativePath cur nxt"
      have eq: "updateNextLink html nxt generateRelativePath cur
                = take i html @ nextLinkText ?path nxt @ drop (i + length disabledNextSpan) html"
        by (rule updateNextLink_replaced [OF assms(1) False Some])
      have "CHR ''>'' \<notin> set ?path"
        using set_generateRelativePath [of cur nxt] assms(2) by auto
      then have \<open>nextLinkRegex (''<a href="'' @ ?path @ ''" class="next-month">''
                  @ (''&laquo; '' @ nxt @ ''</a>'' @ drop (i + length disabledNextSpan) html))
                \<noteq> None\<close>
        by (rule nextLinkRegex_link)
      then have m: "nextLinkRegex
          (drop (length (take i html))
             (take i html @ nextLinkText ?path nxt @ drop (i + length disabledNextSpan) html))
          \<noteq> None"
        by (simp add: nextLinkText_def)
      have "regex_test nextLinkRegex
          (take i html @ nextLinkText ?path nxt @ drop (i + length disabledNextSpan) html)"
        unfolding regex_test_def
        by (rule regex_search_finds [where i = "length (take i html)" and m = nextLinkRegex,
              OF _ m]) simp
      then show ?thesis unfolding eq by (rule fixed)
    qed
  qed
  show ?thesis
    using a b c updateNextLink_replaced [OF assms(1)]
    by (auto split: option.splits)
qed

definition decemberNav :: string where
  "decemberNav = ''<nav>'' @ disabledNextSpan @ ''</nav>''"

theorem updateNextLink_idempotent_witness:
  \<open>CHR ''$'' \<notin> set ''2025-01'' \<and> CHR ''>'' \<notin> set ''2025-01''
   \<and> \<not> regex_test nextLinkRegex decemberNav
   \<and> updateNextLink decemberNav ''2025-01'' generateRelativePath ''2024-12''
       = ''<nav><a href="../2025/2025-01.html" class="next-month">&laquo; 2025-01</a></nav>''
   \<and> updateNextLink (updateNextLink decemberNav ''2025-01'' generateRelativePath ''2024-12'')
         ''2025-01'' generateRelativePath ''2024-12''
       = updateNextLink decemberNav ''2025-01'' generateRelativePath ''2024-12''\<close>
proof -
  have a: "CHR ''$'' \<notin> set ''2025-01''" and b: "CHR ''>'' \<notin> set ''2025-01''"
    by simp_all
  have c: "\<not> regex_test nextLinkRegex decemberNav"
    by code_simp
  have d: \<open>updateNextLink decemberNav ''2025-01'' generateRelativePath ''2024-12''
       = ''<nav><a href="../2025/2025-01.html" class="next-month">&laquo; 2025-01</a></nav>''\<close>
    by code_simp
  from updateNextLink_idempotent [OF a b, of decemberNav "''2024-12''"] show ?thesis
    using c d by simp
qed

section \<open>Properties of the conversion run\<close>

definition pageKnowsAll :: "filesystem \<Rightarrow> string \<Rightarrow> string \<times> rss_item list \<Rightarrow> bool" where
  "pageKnowsAll fsys outputDir grp =
     (if existsSync fsys (getYearDirPath (fst grp) outputDir) then
        (case readFileSync fsys (generateFilePath (fst grp) outputDir) of
           Inr html \<Rightarrow> list_all (\<lambda>i. link i \<in> extractExistingLinks html) (snd grp)
         | Inl e \<Rightarrow> False)
      else False)"

definition pageUpToDate :: "host \<Rightarrow> filesystem \<Rightarrow> string \<Rightarrow> string \<times> rss_item list \<Rightarrow> bool" where
  "pageUpToDate h fsys outputDir grp =
     (if existsSync fsys (generateFilePath (fst grp) outputDir) then
        (case readFileSync fsys (generateFilePath (fst grp) outputDir) of
           Inr html \<Rightarrow>
             filterNewItems (snd grp) (extractMetaDate h html) (extractExistingLinks html) = []
         | Inl e \<Rightarrow> False)
      else False)"

lemma readFileSync_exists: "readFileSync fsys p = Inr html \<Longrightarrow> existsSync fsys p"
  by (auto simp: readFileSync_def existsSync_def split: option.splits)

lemma filterNewItems_known:
  "list_all (\<lambda>i. link i \<in> links) its \<Longrightarrow> filterNewItems its lastDate links = []"
  by (induction its) (auto simp: filterNewItems_def)

lemma processGroup_known:
  assumes "pageKnowsAll (fs w) outputDir grp"
  shows "processGroup h clock feed template outputDir months grp vars w = (Inr vars, w)"
proof -
  from assms obtain html where
    d: "existsSync (fs w) (getYearDirPath (fst grp) outputDir)"
    and r: "readFileSync (fs w) (generateFilePath (fst grp) outputDir) = Inr html"
    and k: "list_all (\<lambda>i. link i \<in> extractExistingLinks html) (snd grp)"
    by (auto simp: pageKnowsAll_def split: if_splits sum.splits)
  show ?thesis
    using d r readFileSync_exists [OF r] filterNewItems_known [OF k]
    by (simp add: processGroup_def Let_def)
qed

lemma processGroups_known:
  "list_all (pageKnowsAll (fs w) outputDir) groups
     \<Longrightarrow> processGroups h clock feed template outputDir months groups vars w = (Inr vars, w)"
  by (induction groups) (auto simp: processGroup_known)

lemma createMonthly_Inr:
  "createMonthly ym dir text n = Inr f
     \<Longrightarrow> filename f = splitFirst CHR ''-'' ym @ ''/'' @ ym @ ''.html''"
  by (auto simp: createMonthly_def Let_def split: if_splits)

lemma renderGroup_Inr:
  assumes "renderGroup h clock feed template outputDir months ym its upd vars w = (Inr vars', w')"
  shows "fs w' = fs w
       \<and> (\<exists>f. outputFiles vars' = outputFiles vars @ [f]
              \<and> filename f = splitFirst CHR ''-'' ym @ ''/'' @ ym @ ''.html'')"
  using assms
  by (auto simp: renderGroup_def Let_def split: if_splits sum.splits option.splits
      dest!: createMonthly_Inr)


lemma mkdirSync_Inr:
  "mkdirSync fsys d = Inr fsys' \<Longrightarrow>
     files fsys' = files fsys \<and> fault fsys' = fault fsys
     \<and> writes (journal fsys') = writes (journal fsys)"
  by (auto simp: mkdirSync_def writes_append split: option.splits)

lemma processGroup_Inr:
  assumes "processGroup h clock feed template outputDir months grp vars w = (Inr vars', w')"
  shows "files (fs w') = files (fs w) \<and> writes (journal (fs w')) = writes (journal (fs w))
       \<and> (if pageUpToDate h (fs w') outputDir grp then outputFiles vars' = outputFiles vars
          else \<exists>f. outputFiles vars' = outputFiles vars @ [f]
                 \<and> filename f = splitFirst CHR ''-'' (fst grp) @ ''/'' @ fst grp @ ''.html'')"
proof -
  let ?p = "generateFilePath (fst grp) outputDir"
  obtain fs1 where
    mk: "(if \<not> existsSync (fs w) (getYearDirPath (fst grp) outputDir)
          then mkdirSync (fs w) (getYearDirPath (fst grp) outputDir) else Inr (fs w)) = Inr fs1"
    using assms by (auto simp: processGroup_def Let_def split: sum.splits)
  then have same: "files fs1 = files (fs w)" "writes (journal fs1) = writes (journal (fs w))"
    by (auto split: if_splits dest: mkdirSync_Inr)
  show ?thesis
  proof (cases "existsSync fs1 ?p")
    case False
    with assms mk have
      "renderGroup h clock feed template outputDir months (fst grp) (snd grp) False
         (vars\<lparr>totalNewItems := totalNewItems vars + length (snd grp)\<rparr>) (w\<lparr>fs := fs1\<rparr>)
       = (Inr vars', w')"
      by (simp add: processGroup_def Let_def)
    from renderGroup_Inr [OF this] show ?thesis
      using False same by (auto simp: pageUpToDate_def)
  next
    case True
    then obtain html where r: "readFileSync fs1 ?p = Inr html"
      using assms mk by (auto simp: processGroup_def Let_def split: sum.splits)
    let ?new = "filterNewItems (snd grp) (extractMetaDate h html) (extractExistingLinks html)"
    show ?thesis
    proof (cases "?new = []")
      case True
      with assms mk r \<open>existsSync fs1 ?p\<close> have "vars' = vars" "w' = w\<lparr>fs := fs1\<rparr>"
        by (auto simp: processGroup_def Let_def)
      then show ?thesis
        using True r \<open>existsSync fs1 ?p\<close> same by (simp add: pageUpToDate_def)
    next
      case False
      with assms mk r \<open>existsSync fs1 ?p\<close> have
        "renderGroup h clock feed template outputDir months (fst grp) ?new True
           (vars\<lparr>totalNewItems := totalNewItems vars + length ?new,
                 updatedFiles := updatedFiles vars + 1\<rparr>) (w\<lparr>fs := fs1\<rparr>)
         = (Inr vars', w')"
        by (simp add: processGroup_def Let_def)
      from renderGroup_Inr [OF this] show ?thesis
        using False r \<open>existsSync fs1 ?p\<close> same by (auto simp: pageUpToDate_def)
    qed
  qed
qed
definition entryA :: rss_item where
  "entryA = \<lparr>title = ''A'', description = ''a'', link = ''http://a/a'',
             pubDate = Some 1734000000000, author = [], guid = [], categories = []\<rparr>"

definition feedAB :: rss_feed where
  "feedAB = \<lparr>feed_title = ''F'', feed_description = ''d'', feed_link = [], feed_language = [],
             feed_items = [entryA, entryB]\<rparr>"

definition pageTemplate :: html_template where
  \<open>pageTemplate = \<lparr>content =
     ''{{FEED_TITLE}}<main>{{#ITEMS}}<article><h2><a href="{{ITEM_LINK}}">{{ITEM_TITLE}}</a></h2></article>{{/ITEMS}}</main>''\<rparr>\<close>

definition clockAt :: "nat \<Rightarrow> int" where
  "clockAt n = 1736900000000 + int n"

definition pageOf :: "string \<Rightarrow> string \<Rightarrow> string" where
  \<open>pageOf url text =
     ''F<main><article><h2><a href="'' @ url @ ''">'' @ text @ ''</a></h2></article></main>''\<close>

definition diskAfterRun :: filesystem where
  \<comment> \<open>the disk as a first run on \<open>feedAB\<close> leaves it, with a new journal\<close>
  "diskAfterRun =
     \<lparr>files = [(''/out/2025/2025-01.html'', pageOf ''http://a/b'' ''B''),
               (''/out/2024/2024-12.html'', pageOf ''http://a/a'' ''A'')],
      dirs = [''/out/2024'', ''/out/2025'', ''/out''],
      fault = (\<lambda>op. None), journal = []\<rparr>"

definition diskDecember :: filesystem where
  \<comment> \<open>the page of December 2024 from an earlier run, with the placeholder for its next month\<close>
  "diskDecember =
     \<lparr>files = [(''/out/2024/2024-12.html'', disabledNextSpan @ pageOf ''http://a/a'' ''A'')],
      dirs = [''/out/2024'', ''/out''],
      fault = (\<lambda>op. None), journal = []\<rparr>"

lemma first_run_leaves_diskAfterRun:
  "fst (convert utc_host clockAt feedAB pageTemplate ''/out'' (startWorld emptyDisk))
     = Success [''/out/2025/2025-01.html'', ''/out/2024/2024-12.html''] 2 0
   \<and> files (fs (snd (convert utc_host clockAt feedAB pageTemplate ''/out'' (startWorld emptyDisk))))
       = files diskAfterRun
   \<and> dirs (fs (snd (convert utc_host clockAt feedAB pageTemplate ''/out'' (startWorld emptyDisk))))
       = dirs diskAfterRun"
  by code_simp

text \<open>
  One run, in general. When every bucket of the feed has its page on disk and every link
  of the bucket is among the links extracted from that page, the filter leaves no item in
  any bucket, the run succeeds with no file, and the state is as before: nothing is
  written, no file is changed. The disk \<open>diskAfterRun\<close> that a first run on \<open>feedAB\<close>
  leaves is such a disk.
\<close>

theorem convert_rerun_writes_nothing:
  assumes "list_all (pageKnowsAll (fs w) outputDir) (groupItemsByMonth h (feed_items feed))"
    and "validateTemplate (Some template) = Inr warnings"
  shows "convert h clock feed template outputDir w = (Success [] 0 0, w\<lparr>writtenFiles := []\<rparr>)
       \<and> list_all (pageUpToDate h (fs w) outputDir) (groupItemsByMonth h (feed_items feed))"
proof -
  have "list_all (pageKnowsAll (fs (w\<lparr>writtenFiles := []\<rparr>)) outputDir)
          (groupItemsByMonth h (feed_items feed))"
    using assms(1) by simp
  from processGroups_known [OF this] have
    "convert h clock feed template outputDir w = (Success [] 0 0, w\<lparr>writtenFiles := []\<rparr>)"
    using assms(2) by (simp add: convert_def Let_def)
  moreover have "pageUpToDate h (fs w) outputDir grp" if "pageKnowsAll (fs w) outputDir grp" for grp
  proof -
    from that obtain html where
      r: "readFileSync (fs w) (generateFilePath (fst grp) outputDir) = Inr html"
      and k: "list_all (\<lambda>i. link i \<in> extractExistingLinks html) (snd grp)"
      by (auto simp: pageKnowsAll_def split: if_splits sum.splits)
    show ?thesis
      using r readFileSync_exists [OF r] filterNewItems_known [OF k]
      by (simp add: pageUpToDate_def)
  qed
  ultimately show ?thesis
    using assms(1) by (auto simp: list_all_iff)
qed

theorem convert_rerun_writes_nothing_witness:
  "list_all (pageKnowsAll (fs (startWorld diskAfterRun)) ''/out'')
     (groupItemsByMonth utc_host (feed_items feedAB))
   \<and> validateTemplate (Some pageTemplate) = Inr []
   \<and> convert utc_host clockAt feedAB pageTemplate ''/out'' (startWorld diskAfterRun)
       = (Success [] 0 0, (startWorld diskAfterRun)\<lparr>writtenFiles := []\<rparr>)"
proof -
  have a: "list_all (pageKnowsAll (fs (startWorld diskAfterRun)) ''/out'')
             (groupItemsByMonth utc_host (feed_items feedAB))"
    by code_simp
  have b: "validateTemplate (Some pageTemplate) = Inr []"
    by code_simp
  from convert_rerun_writes_nothing [OF a b, of clockAt] show ?thesis
    using a b by simp
qed

definition entryQ :: rss_item where
  "entryQ = \<lparr>title = ''Q'', description = ''q'', link = ''http://a/it's'',
             pubDate = Some 1736000000000, author = [], guid = [], categories = []\<rparr>"

definition feedQ :: rss_feed where
  "feedQ = \<lparr>feed_title = ''F'', feed_description = ''d'', feed_link = [], feed_language = [],
            feed_items = [entryQ]\<rparr>"

definition firstRun :: "conv_result \<times> world" where
  "firstRun = convert utc_host clockAt feedQ pageTemplate ''/out'' (startWorld emptyDisk)"

definition secondRun :: "conv_result \<times> world" where
  \<comment> \<open>a new process on the disk that the first run leaves, with the same feed\<close>
  "secondRun =
     convert utc_host clockAt feedQ pageTemplate ''/out'' (startWorld (fs (snd firstRun)))"

definition articleQ :: string where
  \<open>articleQ = ''<article><h2><a href="http://a/it's">Q</a></h2></article>''\<close>

text \<open>
  C2 at a feed whose one entry has an apostrophe in its link, run twice in succession.
  The first run writes the page with the link as it is, since \<open>{{ITEM_LINK}}\<close> is
  substituted without escaping. \<open>extractExistingLinks\<close> reads an \<open>href\<close> up to the first
  quote of either kind, so the page does not yield the link of the entry. The second run
  takes the entry for a new one: it reports one new item and one updated file, and writes
  the page again, now with the entry twice.
\<close>

theorem convert_rerun_adds_entry_again:
  "fst firstRun = Success [''/out/2025/2025-01.html''] 1 0
   \<and> files (fs (snd firstRun))
       = [(''/out/2025/2025-01.html'', ''F<main>'' @ articleQ @ ''</main>'')]
   \<and> link entryQ \<notin> extractExistingLinks (''F<main>'' @ articleQ @ ''</main>'')
   \<and> fst secondRun = Success [''/out/2025/2025-01.html''] 1 1
   \<and> files (fs (snd secondRun))
       = [(''/out/2025/2025-01.html'',
           ''F<main>'' @ newline @ ''    '' @ articleQ @ newline @ newline @ articleQ
           @ newline @ ''    </main>'')]"
  by code_simp

text \<open>
  C5, as the code has it. In the loop a bucket whose page exists and has no new entry
  queues no file, and any other bucket that is processed queues exactly one file, its
  page; the loop writes no file; the batch writer writes each queued file once. The
  navigation patch that follows is not bound by this: see below.
\<close>

theorem bucket_outcome:
  "(processGroup h clock feed template outputDir months grp vars w = (Inr vars', w') \<longrightarrow>
      files (fs w') = files (fs w) \<and> writes (journal (fs w')) = writes (journal (fs w))
      \<and> (if pageUpToDate h (fs w') outputDir grp then outputFiles vars' = outputFiles vars
         else \<exists>f. outputFiles vars' = outputFiles vars @ [f]
                \<and> filename f = splitFirst CHR ''-'' (fst grp) @ ''/'' @ fst grp @ ''.html''))
   \<and> (writeFiles h outs outputDir wb = (Inr paths, wb') \<longrightarrow>
        writes (journal (fs wb'))
        = writes (journal (fs wb)) @ map (\<lambda>f. resolve h outputDir (filename f)) outs)"
proof -
  have "writes (journal (fs wb'))
        = writes (journal (fs wb)) @ map (\<lambda>f. resolve h outputDir (filename f)) outs"
    if "writeFiles h outs outputDir wb = (Inr paths, wb')"
    using writeFilesLoop_outcome
      [of h outputDir outs "[]" wb "Inr paths" wb' "length (writes (journal (fs wb)))"] that
    by (simp add: writeFiles_def)
  then show ?thesis
    using processGroup_Inr [of h clock feed template outputDir months grp vars w vars' w']
    by blast
qed

definition noVars :: loop_vars where
  "noVars = \<lparr>outputFiles = [], newlyCreatedPages = [], totalNewItems = 0, updatedFiles = 0\<rparr>"

theorem bucket_outcome_witness:
  "fst (processGroup utc_host clockAt feedAB pageTemplate ''/out'' [''2025-01'', ''2024-12'']
          (''2024-12'', [entryA]) noVars (startWorld diskDecember)) = Inr noVars
   \<and> pageUpToDate utc_host (fs (startWorld diskDecember)) ''/out'' (''2024-12'', [entryA])
   \<and> fst (writeFiles utc_host twoFiles ''/out'' (startWorld emptyDisk))
       = Inr [''/out/2025/2025-01.html'', ''/out/2024/2024-12.html'']
   \<and> writes (journal (fs (snd (writeFiles utc_host twoFiles ''/out'' (startWorld emptyDisk)))))
       = [''/out/2025/2025-01.html'', ''/out/2024/2024-12.html'']"
proof -
  let ?step = "processGroup utc_host clockAt feedAB pageTemplate ''/out''
                 [''2025-01'', ''2024-12''] (''2024-12'', [entryA]) noVars
                 (startWorld diskDecember)"
  let ?batch = "writeFiles utc_host twoFiles ''/out'' (startWorld emptyDisk)"
  have a: "fst ?step = Inr noVars"
    by code_simp
  have b: "pageUpToDate utc_host (fs (startWorld diskDecember)) ''/out'' (''2024-12'', [entryA])"
    by code_simp
  have c: "fst ?batch = Inr [''/out/2025/2025-01.html'', ''/out/2024/2024-12.html'']"
    by code_simp
  have d: "writes (journal (fs (startWorld emptyDisk))) = []"
    by code_simp
  have e: "map (\<lambda>f. resolve utc_host ''/out'' (filename f)) twoFiles
           = [''/out/2025/2025-01.html'', ''/out/2024/2024-12.html'']"
    by code_simp
  have s: "?step = (Inr noVars, snd ?step)"
    using a by (simp add: prod_eq_iff)
  have t: "?batch = (Inr [''/out/2025/2025-01.html'', ''/out/2024/2024-12.html''], snd ?batch)"
    using c by (simp add: prod_eq_iff)
  note outcome = bucket_outcome
    [where h = utc_host and clock = clockAt and feed = feedAB and template = pageTemplate
       and outputDir = "''/out''" and months = "[''2025-01'', ''2024-12'']"
       and grp = "(''2024-12'', [entryA])" and vars = noVars
       and w = "startWorld diskDecember" and vars' = noVars and w' = "snd ?step"
       and outs = twoFiles and wb = "startWorld emptyDisk"
       and paths = "[''/out/2025/2025-01.html'', ''/out/2024/2024-12.html'']"
       and wb' = "snd ?batch"]
  from outcome [THEN conjunct1, THEN mp, OF s] have
    "files (fs (snd ?step)) = files (fs (startWorld diskDecember))"
    by (rule conjunct1)
  from outcome [THEN conjunct2, THEN mp, OF t] have
    "writes (journal (fs (snd ?batch)))
     = writes (journal (fs (startWorld emptyDisk)))
       @ map (\<lambda>f. resolve utc_host ''/out'' (filename f)) twoFiles" .
  then show ?thesis
    using a b c d e by simp
qed

text \<open>
  C5 as stated fails: the bucket of December 2024 has no new entry, and the run that
  creates the page of January 2025 writes the page of December 2024, to set its link to
  the next month.
\<close>

theorem unchanged_bucket_page_written:
  "pageUpToDate utc_host (fs (startWorld diskDecember)) ''/out'' (''2024-12'', [entryA])
   \<and> writes (journal (fs (snd (convert utc_host clockAt feedAB pageTemplate ''/out''
                                   (startWorld diskDecember)))))
       = [''/out/.feedtohtml-write-test'', ''/out/2025/2025-01.html'', ''/out/2024/2024-12.html'']"
  by code_simp

end
